theory Spec2Isabelle
  imports Complex_Main
begin

section \<open>Python strings\<close>

text \<open>
  A Python \<open>str\<close> is modelled as a \<open>string\<close>; a \<open>char\<close> is read as the Unicode code
  point of the same number, so the model covers text of code points below 256. The
  character classes below are the ones Python 3 uses on these code points:
  \<open>str.isspace\<close> and the regular expression class \<open>\s\<close> agree on them, as do
  \<open>str.lower\<close> and the table of \<open>lower_char\<close>. Python floats are modelled as real
  numbers, with exact arithmetic; the one quotient whose rounding can change a
  classification is treated apart, at \<open>weighted_average\<close>.
\<close>

definition is_space :: "char \<Rightarrow> bool" where
  "is_space c = (c \<in> {CHR 0x09, CHR 0x0A, CHR 0x0B, CHR 0x0C, CHR 0x0D, CHR 0x1C, CHR 0x1D,
     CHR 0x1E, CHR 0x1F, CHR 0x20, CHR 0x85, CHR 0xA0})"

definition is_word :: "char \<Rightarrow> bool" where
  "is_word c = (let n = (of_char c :: nat) in
     (48 \<le> n \<and> n \<le> 57) \<or> (65 \<le> n \<and> n \<le> 90) \<or> n = 95 \<or> (97 \<le> n \<and> n \<le> 122) \<or>
     n = 170 \<or> n = 178 \<or> n = 179 \<or> n = 181 \<or> n = 185 \<or> n = 186 \<or>
     (188 \<le> n \<and> n \<le> 190) \<or> (192 \<le> n \<and> n \<le> 214) \<or> (216 \<le> n \<and> n \<le> 246) \<or> 248 \<le> n)"

definition lower_char :: "char \<Rightarrow> char" where
  "lower_char c = (let n = (of_char c :: nat) in
     if (65 \<le> n \<and> n \<le> 90) \<or> (192 \<le> n \<and> n \<le> 222 \<and> n \<noteq> 215)
     then char_of (n + 32) else c)"

definition lower :: "string \<Rightarrow> string" where
  "lower s = map lower_char s"

definition strip :: "string \<Rightarrow> string" where
  "strip s = rev (dropWhile is_space (rev (dropWhile is_space s)))"

definition startswith :: "string \<Rightarrow> string \<Rightarrow> bool" where
  "startswith s p = (take (length p) s = p)"

section \<open>Verdicts\<close>

text \<open>
  The analyzers return dictionaries. Every one of them has the keys \<open>classification\<close>
  and \<open>confidence\<close>; at most one of the keys \<open>method\<close>, \<open>error\<close> and \<open>source\<close> says
  where the result comes from; \<open>label\<close> is present in the results of the content
  analyzer only; the remaining keys are the statistics of the producer.
\<close>

datatype provenance = Method string | Error string | Source string | Untagged

datatype detail =
    No_detail
  | Pattern_stats nat nat
  | Profile_stats nat real "real \<times> real \<times> real"
  | Link_stats real nat "(string \<times> int \<times> real) list"

record verdict =
  classification :: int
  confidence :: real
  label :: "string option"
  provenance :: provenance
  detail :: detail
  adjusted_by :: "string option"

definition labels :: "int \<Rightarrow> string option" where
  "labels c = (if c = 0 then Some ''t-friendly'' else if c = 1 then Some ''gray-area''
     else if c = 2 then Some ''transphobic'' else None)"

section \<open>The content analyzer\<close>

text \<open>
  What \<open>requests.post\<close> on the generate endpoint gives back: the request raises, or a
  response arrives with its status code. The body of a response either cannot be used
  (it is not JSON, not an object, or its member \<open>response\<close> is not a string: each raises
  inside the \<open>try\<close> block) or is an object with or without a string member \<open>response\<close>.
\<close>

datatype json_body = Undecodable | Json_object "string option"

datatype http_reply = Request_failed | Http_response nat json_body

text \<open>
  The fields of a \<open>ContentAnalyzer\<close> that the analysis reads, and its collaborators:
  the spaCy pipeline (the lemmas of the tokens that are neither stop words nor
  punctuation, joined by spaces; absent when the model could not be loaded), the
  inference backend as a function of the prompt, the regular expression engine,
  \<open>findall_count p s\<close> standing for \<open>len(re.findall(p, s))\<close>, and the float
  that Python computes for the weighted average of labels of more than one kind
  (see \<open>weighted_average\<close>).
\<close>

record content_analyzer =
  ollama_available :: bool
  nlp :: "(string \<Rightarrow> string) option"
  ollama_post :: "string \<Rightarrow> http_reply"
  findall_count :: "string \<Rightarrow> string \<Rightarrow> nat"
  float_quotient :: "int list \<Rightarrow> real list \<Rightarrow> real"

definition bsl :: string where
  "bsl = [CHR 0x5C]"

definition transphobic_patterns :: "string list" where
  "transphobic_patterns =
    [bsl @ ''b(only'' @ bsl @ ''s+two'' @ bsl @ ''s+genders|attack'' @ bsl @ ''s+helicopter|basic''
       @ bsl @ ''s+biology|genital'' @ bsl @ ''s+mutilation)'' @ bsl @ ''b'',
     bsl @ ''b(trans'' @ bsl @ ''s*cult|trans'' @ bsl @ ''s*ideology|tr[a@]nn[y!ie]|alphabet''
       @ bsl @ ''s+mafia|lgb'' @ bsl @ ''s*drop'' @ bsl @ ''s*the'' @ bsl @ ''s*t)'' @ bsl @ ''b'',
     bsl @ ''b(gender'' @ bsl @ ''s*confused|gender'' @ bsl @ ''s*delusion|transgenderism|gender''
       @ bsl @ ''s*ideology|woke'' @ bsl @ ''s*gender)'' @ bsl @ ''b'']"

definition friendly_patterns :: "string list" where
  "friendly_patterns =
    [bsl @ ''b(trans'' @ bsl @ ''s*rights|trans'' @ bsl @ ''s*women'' @ bsl @ ''s*are'' @ bsl
       @ ''s*women|trans'' @ bsl @ ''s*men'' @ bsl @ ''s*are'' @ bsl @ ''s*men|protect'' @ bsl
       @ ''s*trans'' @ bsl @ ''s*kids)'' @ bsl @ ''b'',
     bsl @ ''b(gender'' @ bsl @ ''s*affirming|respect'' @ bsl @ ''s*pronouns|transgender'' @ bsl
       @ ''s*visibility|support'' @ bsl @ ''s*trans)'' @ bsl @ ''b'',
     bsl @ ''b(gender'' @ bsl @ ''s*expression|gender'' @ bsl @ ''s*identity|nonbinary'' @ bsl
       @ ''s*rights|trans'' @ bsl @ ''s*healthcare|gender'' @ bsl @ ''s*euphoria)'' @ bsl @ ''b'']"

subsection \<open>preprocess_text\<close>

text \<open>
  \<open>re.sub(r'https?://\S+', '', text)\<close>: a match starts at \<open>http://\<close> or \<open>https://\<close>
  followed by a character that is not white space, and runs to the next white space,
  so the scan drops everything from the start of a match up to that white space.
\<close>

definition url_starts :: "string \<Rightarrow> bool" where
  "url_starts s =
    (let after = (if startswith s ''https://'' then Some (drop 8 s)
                  else if startswith s ''http://'' then Some (drop 7 s) else None)
     in case after of None \<Rightarrow> False | Some [] \<Rightarrow> False | Some (c # _) \<Rightarrow> \<not> is_space c)"

fun drop_urls :: "bool \<Rightarrow> string \<Rightarrow> string" where
  "drop_urls inside [] = []"
| "drop_urls True (c # s) = (if is_space c then c # drop_urls False s else drop_urls True s)"
| "drop_urls False (c # s) = (if url_starts (c # s) then drop_urls True s else c # drop_urls False s)"

text \<open>\<open>re.sub(r'[^\w\s.,!?]', ' ', text)\<close>\<close>

definition blank_specials :: "string \<Rightarrow> string" where
  "blank_specials s =
    map (\<lambda>c. if is_word c \<or> is_space c \<or> c \<in> {CHR ''.'', CHR '','', CHR ''!'', CHR ''?''}
             then c else CHR '' '') s"

text \<open>\<open>re.sub(r'\s+', ' ', text)\<close>: the blank is written at the last character of a run.\<close>

fun collapse_spaces :: "string \<Rightarrow> string" where
  "collapse_spaces [] = []"
| "collapse_spaces [c] = (if is_space c then '' '' else [c])"
| "collapse_spaces (c # d # s) =
    (if is_space c then (if is_space d then collapse_spaces (d # s) else CHR '' '' # collapse_spaces (d # s))
     else c # collapse_spaces (d # s))"

definition preprocess_text :: "content_analyzer \<Rightarrow> string \<Rightarrow> string" where
  "preprocess_text a s =
    (if s = [] then []
     else let cleaned = strip (collapse_spaces (blank_specials (drop_urls False s)))
          in case nlp a of Some pipeline \<Rightarrow> pipeline (take 100000 cleaned) | None \<Rightarrow> cleaned)"

subsection \<open>analyze_with_ollama\<close>

definition ollama_prompt :: "string \<Rightarrow> string" where
  "ollama_prompt s =
    ''Analyze this content and determine if it'' @ [CHR 0x27] @ ''s transphobic or trans-friendly. ''
    @ ''Respond with only the number:'' @ [CHR 0x0A] @ ''0 = trans-friendly'' @ [CHR 0x0A]
    @ ''1 = unclear or needs more context'' @ [CHR 0x0A] @ ''2 = transphobic'' @ [CHR 0x0A, CHR 0x0A]
    @ ''Content: '' @ s"

definition digit_0_2 :: "char \<Rightarrow> bool" where
  "digit_0_2 c = (c = CHR ''0'' \<or> c = CHR ''1'' \<or> c = CHR ''2'')"

definition digit_value :: "char \<Rightarrow> int" where
  "digit_value c = (if c = CHR ''0'' then 0 else if c = CHR ''1'' then 1 else 2)"

text \<open>\<open>None\<close> is the \<open>None\<close> of the source: the status is not 200, or an exception was caught.\<close>

definition analyze_with_ollama :: "content_analyzer \<Rightarrow> string \<Rightarrow> verdict option" where
  "analyze_with_ollama a s =
    (case ollama_post a (ollama_prompt s) of
       Request_failed \<Rightarrow> None
     | Http_response status_code body \<Rightarrow>
         if status_code = 200 then
           (case body of
              Undecodable \<Rightarrow> None
            | Json_object response \<Rightarrow>
                let classification_text = strip (case response of None \<Rightarrow> ''1'' | Some r \<Rightarrow> r);
                    c = (case find digit_0_2 classification_text of
                           Some d \<Rightarrow> digit_value d
                         | None \<Rightarrow> 1)
                in Some \<lparr>classification = c, confidence = 0.8, label = labels c,
                         provenance = Method ''ollama'', detail = No_detail, adjusted_by = None\<rparr>)
         else None)"

subsection \<open>analyze_with_patterns\<close>

definition transphobic_count :: "content_analyzer \<Rightarrow> string \<Rightarrow> nat" where
  "transphobic_count a s = sum_list (map (\<lambda>p. findall_count a p (lower s)) transphobic_patterns)"

definition friendly_count :: "content_analyzer \<Rightarrow> string \<Rightarrow> nat" where
  "friendly_count a s = sum_list (map (\<lambda>p. findall_count a p (lower s)) friendly_patterns)"

definition analyze_with_patterns :: "content_analyzer \<Rightarrow> string \<Rightarrow> verdict" where
  "analyze_with_patterns a s =
    (let t = transphobic_count a s;
         f = friendly_count a s;
         total_matches = t + f
     in if total_matches = 0 then
          \<lparr>classification = 1, confidence = 0.3, label = labels 1,
           provenance = Method ''pattern_matching'', detail = No_detail, adjusted_by = None\<rparr>
        else
          let transphobic_score = (if total_matches > 0 then real t / real total_matches else 0);
              (c, conf) = (if transphobic_score > 0.7 then (2, 0.5 + (transphobic_score - 0.7) * 1.5)
                           else if transphobic_score < 0.3 then (0, 0.5 + (0.3 - transphobic_score) * 1.5)
                           else (1, 0.3))
          in \<lparr>classification = c, confidence = min conf 0.95, label = labels c,
              provenance = Method ''pattern_matching'', detail = Pattern_stats t f,
              adjusted_by = None\<rparr>)"

subsection \<open>analyze_text\<close>

text \<open>
  Beside the verdict, \<open>analyze_text\<close> returns the calls it made to the two
  classifiers, in order, each with the text it passed.
\<close>

datatype classifier_call = Ollama_call string | Pattern_call string

definition insufficient_text :: verdict where
  "insufficient_text = \<lparr>classification = 1, confidence = 0.1, label = labels 1,
     provenance = Error ''insufficient_text'', detail = No_detail, adjusted_by = None\<rparr>"

definition analyze_text :: "content_analyzer \<Rightarrow> string \<Rightarrow> verdict \<times> classifier_call list" where
  "analyze_text a s =
    (if s = [] \<or> length (strip s) < 5 then (insufficient_text, [])
     else
       let processed_text = preprocess_text a s in
       if ollama_available a then
         (case analyze_with_ollama a (take 8000 processed_text) of
            Some ollama_result \<Rightarrow> (ollama_result, [Ollama_call (take 8000 processed_text)])
          | None \<Rightarrow> (analyze_with_patterns a processed_text,
                     [Ollama_call (take 8000 processed_text), Pattern_call processed_text]))
       else (analyze_with_patterns a processed_text, [Pattern_call processed_text]))"

subsection \<open>analyze_profile\<close>

text \<open>
  \<open>np.std\<close>: the population standard deviation. The aggregator calls it on a list that
  is not empty (of an empty list numpy returns \<open>nan\<close>; here the quotients are 0).
\<close>

definition np_std :: "int list \<Rightarrow> real" where
  "np_std xs =
    (let n = real (length xs);
         mean = sum_list (map real_of_int xs) / n
     in sqrt (sum_list (map (\<lambda>x. (real_of_int x - mean) ^ 2) xs) / n))"

definition no_posts :: verdict where
  "no_posts = \<lparr>classification = 1, confidence = 0.1, label = labels 1,
     provenance = Error ''no_posts'', detail = No_detail, adjusted_by = None\<rparr>"

text \<open>
  The weighted average of the labels. Python evaluates the two sums and their
  quotient in floating point. When all labels are equal, the float quotient is that
  label exactly, as the real quotient is: the products by 0, 1 or 2 are exact, and
  doubling every term doubles every partial sum. When the labels differ, the float
  quotient is the real one up to rounding only, which can put it on the other side of
  a threshold of \<open>final_classification\<close> (for the labels 2, 0, 0, 0, 0 with equal
  weights the real quotient is 0.4 and the float one is below); there the model
  takes the quotient from its first argument, a function of the labels and weights.
\<close>

definition weighted_average ::
  "(int list \<Rightarrow> real list \<Rightarrow> real) \<Rightarrow> int list \<Rightarrow> real list \<Rightarrow> real"
where
  "weighted_average rounded classifications confidences =
    (let weighted_sum = sum_list (map (\<lambda>(c, conf). real_of_int c * conf) (zip classifications confidences));
         total_confidence = sum_list confidences
     in if total_confidence > 0 then
          (if list_all (\<lambda>c. c = hd classifications) classifications
           then weighted_sum / total_confidence
           else rounded classifications confidences)
        else 1)"

definition final_classification :: "real \<Rightarrow> int" where
  "final_classification weighted_avg =
    (if weighted_avg > 1.6 then 2 else if weighted_avg < 0.4 then 0 else 1)"

definition consistency :: "int list \<Rightarrow> real" where
  "consistency classifications = 1 - np_std classifications / 2"

definition sample_confidence :: "string list \<Rightarrow> real" where
  "sample_confidence posts = min 1 (real (length posts) / 10)"

definition analyze_profile :: "content_analyzer \<Rightarrow> string list \<Rightarrow> verdict" where
  "analyze_profile a posts =
    (if posts = [] then no_posts
     else
       let results = map (\<lambda>post. fst (analyze_text a post)) (take 20 posts);
           classifications = map classification results;
           confidences = map confidence results;
           weighted_avg = weighted_average (float_quotient a) classifications confidences;
           final = final_classification weighted_avg;
           final_confidence = min 0.95 ((consistency classifications + sample_confidence posts) / 2);
           n = real (length classifications)
       in \<lparr>classification = final, confidence = final_confidence, label = labels final,
           provenance = Method ''profile_analysis'',
           detail = Profile_stats (length posts) (consistency classifications)
             (real (count_list classifications 2) / n,
              real (count_list classifications 1) / n,
              real (count_list classifications 0) / n),
           adjusted_by = None\<rparr>)"

section \<open>The Common Crawl analyzer\<close>

subsection \<open>Domains\<close>

definition known_transphobic_domains :: "string set" where
  "known_transphobic_domains =
    {''kiwifarms.net'', ''ovarit.com'', ''rodeoh.com'', ''familyresearchcouncil.org'',
     ''heritage.org'', ''breitbart.com'', ''dailywire.com'', ''thefederalist.com'',
     ''lifesitenews.com'', ''womenspaceinternational.org'', ''womenarexx.org'',
     ''standingforsex.org'', ''womenarehuman.com'', ''fairplayforwomen.com'',
     ''womensdeclaration.com'', ''detransvoices.org'', ''terfisaslur.com'', ''genspect.org'',
     ''transgender-trend.com'', ''pitt.substack.com'', ''jessesingal.substack.com'',
     ''grahamlinehan.substack.com'', ''fencesitterz.substack.com'',
     ''abigailshrier.substack.com'', ''pduffy.substack.com'',
     ''michaelshellenberger.substack.com'', ''thepostmillennial.com'', ''fpiw.org''}"

definition known_transfriendly_domains :: "string set" where
  "known_transfriendly_domains =
    {''glaad.org'', ''transequality.org'', ''thetrevorproject.org'', ''glsen.org'', ''pflag.org'',
     ''mermaidsuk.org.uk'', ''tgeu.org'', ''transhub.org.au'', ''genderspectrum.org'',
     ''transathlete.com'', ''transpulseproject.ca'', ''translawcenter.org'',
     ''transmascnetwork.org'', ''translifeline.org'', ''itgetsbetter.org'', ''gender.wikia.org'',
     ''transadvocate.com'', ''transjournalists.org'', ''juliaserano.com'', ''transstudent.org'',
     ''transyouthequality.org'', ''point5cc.com'', ''genderanalysis.net'', ''translash.org'',
     ''autostraddle.com'', ''them.us'', ''bitchmedia.org'', ''everydayfeminism.com''}"

text \<open>
  \<open>urlparse(url).netloc\<close>, after \<open>urlsplit\<close> of CPython 3.11: leading control
  characters and blanks are stripped, tabs and line breaks removed, a scheme is split
  off at the first colon when everything before it is a scheme character, and the
  network location is what stands between a leading \<open>//\<close> and the next \<open>/\<close>, \<open>?\<close> or
  \<open>#\<close>. \<open>None\<close> stands for the \<open>ValueError\<close> that unmatched brackets, or a bracketed
  host that is not an address, raise; which bracketed hosts are not addresses is left
  to the parameter \<open>bad_host\<close>. The check of the network location under NFKC
  normalization cannot fail on code points below 256.
\<close>

definition scheme_char :: "char \<Rightarrow> bool" where
  "scheme_char c = (let n = (of_char c :: nat) in
     (97 \<le> n \<and> n \<le> 122) \<or> (65 \<le> n \<and> n \<le> 90) \<or> (48 \<le> n \<and> n \<le> 57) \<or>
     c = CHR ''+'' \<or> c = CHR ''-'' \<or> c = CHR ''.'')"

definition ascii_alpha :: "char \<Rightarrow> bool" where
  "ascii_alpha c = (let n = (of_char c :: nat) in (97 \<le> n \<and> n \<le> 122) \<or> (65 \<le> n \<and> n \<le> 90))"

definition netloc_delimiter :: "char \<Rightarrow> bool" where
  "netloc_delimiter c = (c = CHR ''/'' \<or> c = CHR ''?'' \<or> c = CHR ''#'')"

definition unsafe_url_char :: "char \<Rightarrow> bool" where
  "unsafe_url_char c = (c = CHR 0x09 \<or> c = CHR 0x0D \<or> c = CHR 0x0A)"

definition urlparse_netloc :: "(string \<Rightarrow> bool) \<Rightarrow> string \<Rightarrow> string option" where
  "urlparse_netloc bad_host url =
    (let url1 = dropWhile (\<lambda>c. (of_char c :: nat) \<le> 32) url;
         url2 = filter (\<lambda>c. \<not> unsafe_url_char c) url1;
         i = length (takeWhile (\<lambda>c. c \<noteq> CHR '':'') url2);
         url3 = (if i < length url2 \<and> i > 0 \<and> ascii_alpha (hd url2) \<and> list_all scheme_char (take i url2)
                 then drop (i + 1) url2 else url2)
     in if take 2 url3 = ''//'' then
          let netloc = takeWhile (\<lambda>c. \<not> netloc_delimiter c) (drop 2 url3);
              opening = (CHR ''['' \<in> set netloc);
              closing = (CHR '']'' \<in> set netloc)
          in if (opening \<and> \<not> closing) \<or> (closing \<and> \<not> opening) then None
             else if opening \<and> closing \<and>
                     bad_host (takeWhile (\<lambda>c. c \<noteq> CHR '']'') (drop 1 (dropWhile (\<lambda>c. c \<noteq> CHR ''['') netloc)))
             then None
             else Some netloc
        else Some [])"

text \<open>
  A crawl index record, and the collaborators of a \<open>CommonCrawlAnalyzer\<close>: the index
  query (the parsed lines of the answer, none when the query fails), the range request
  for a record (the status code and the body of the response, nothing when the
  request raises), the text that BeautifulSoup extracts from a page, the regular
  expression engine, the validity check of the URL library, the order in which
  Python iterates over the set built by adding the given strings one after the
  other, and the float quotient of \<open>weighted_average\<close>.
\<close>

record cc_record =
  rec_filename :: string
  rec_offset :: int
  rec_length :: int

record cc_analyzer =
  index_lines :: "string \<Rightarrow> cc_record list"
  range_request :: "cc_record \<Rightarrow> (nat \<times> string) option"
  extract_text_from_html :: "string \<Rightarrow> string"
  cc_findall_count :: "string \<Rightarrow> string \<Rightarrow> nat"
  bracketed_host_rejected :: "string \<Rightarrow> bool"
  set_iteration :: "string list \<Rightarrow> string list"
  cc_float_quotient :: "int list \<Rightarrow> real list \<Rightarrow> real"

definition get_domain_from_url :: "cc_analyzer \<Rightarrow> string \<Rightarrow> string" where
  "get_domain_from_url c url =
    (case urlparse_netloc (bracketed_host_rejected c)
            (if startswith url ''http'' then url else ''https://'' @ url) of
       None \<Rightarrow> lower url
     | Some netloc \<Rightarrow>
         let domain = lower netloc
         in if startswith domain ''www.'' then drop 4 domain else domain)"

definition check_known_domain_stance :: "string \<Rightarrow> verdict option" where
  "check_known_domain_stance domain =
    (if domain \<in> known_transphobic_domains then
       Some \<lparr>classification = 2, confidence = 0.85, label = None,
             provenance = Source ''known_transphobic_domain'', detail = No_detail, adjusted_by = None\<rparr>
     else if domain \<in> known_transfriendly_domains then
       Some \<lparr>classification = 0, confidence = 0.85, label = None,
             provenance = Source ''known_transfriendly_domain'', detail = No_detail, adjusted_by = None\<rparr>
     else None)"

subsection \<open>analyze_domain_content\<close>

definition fetch_cc_records_for_domain :: "cc_analyzer \<Rightarrow> string \<Rightarrow> cc_record list" where
  "fetch_cc_records_for_domain c domain = take 10 (index_lines c domain)"

text \<open>
  The parsing of the response in \<open>_fetch_warc_record\<close>: \<open>content\<close> starts as \<open>None\<close>,
  and the archive iterator is built and read inside a \<open>try\<close> block whose bare
  \<open>except\<close> passes. The iterator is given a warcio \<open>BufferedReader\<close> over
  \<open>response.content\<close>; a \<open>BufferedReader\<close> reads from a stream by calling its
  \<open>read\<close> method, and \<open>response.content\<close> is a \<open>bytes\<close> object, which has none. So
  the read of the first record raises, the loop body never runs, and \<open>content\<close> is
  still \<open>None\<close> when the function returns it, whatever the body holds.
\<close>

definition read_warc_content :: "string \<Rightarrow> string option" where
  "read_warc_content body = None"

definition fetch_warc_record :: "cc_analyzer \<Rightarrow> cc_record \<Rightarrow> string option" where
  "fetch_warc_record c r =
    (if rec_filename r = [] \<or> rec_offset r < 0 \<or> rec_length r \<le> 0 then None
     else
       (case range_request c r of
          None \<Rightarrow> None
        | Some (status_code, body) \<Rightarrow>
            if status_code \<noteq> 206 then None else read_warc_content body))"

fun collect_contents :: "cc_analyzer \<Rightarrow> cc_record list \<Rightarrow> string list" where
  "collect_contents c [] = []"
| "collect_contents c (r # rs) =
    (case fetch_warc_record c r of
       None \<Rightarrow> collect_contents c rs
     | Some content \<Rightarrow>
         if content = [] then collect_contents c rs
         else let extracted = extract_text_from_html c content
              in if extracted = [] then collect_contents c rs
                 else take 10000 extracted # collect_contents c rs)"

definition site_transphobic_count :: "cc_analyzer \<Rightarrow> string list \<Rightarrow> nat" where
  "site_transphobic_count c contents =
    sum_list (map (\<lambda>content. sum_list (map (\<lambda>p. cc_findall_count c p (lower content)) transphobic_patterns)) contents)"

definition site_friendly_count :: "cc_analyzer \<Rightarrow> string list \<Rightarrow> nat" where
  "site_friendly_count c contents =
    sum_list (map (\<lambda>content. sum_list (map (\<lambda>p. cc_findall_count c p (lower content)) friendly_patterns)) contents)"

definition no_data_verdict :: "string \<Rightarrow> verdict" where
  "no_data_verdict reason = \<lparr>classification = 1, confidence = 0.1, label = None,
     provenance = Source reason, detail = No_detail, adjusted_by = None\<rparr>"

definition analyze_domain_content :: "cc_analyzer \<Rightarrow> string \<Rightarrow> verdict" where
  "analyze_domain_content c domain =
    (case check_known_domain_stance domain of
       Some known_stance \<Rightarrow> known_stance
     | None \<Rightarrow>
         let records = fetch_cc_records_for_domain c domain in
         if records = [] then no_data_verdict ''no_cc_data''
         else
           let contents = collect_contents c (take 3 records) in
           if contents = [] then no_data_verdict ''no_content_extracted''
           else
             let t = site_transphobic_count c contents;
                 f = site_friendly_count c contents;
                 total_matches = t + f
             in if total_matches = 0 then
                  \<lparr>classification = 1, confidence = 0.3, label = None,
                   provenance = Source ''pattern_analysis'', detail = Pattern_stats 0 0,
                   adjusted_by = None\<rparr>
                else
                  let transphobic_ratio = real t / real total_matches;
                      (cl, conf) =
                        (if transphobic_ratio > 0.7 then (2, 0.5 + min 0.4 (transphobic_ratio - 0.7))
                         else if transphobic_ratio < 0.3 then (0, 0.5 + min 0.4 (0.3 - transphobic_ratio))
                         else (1, 0.3))
                  in \<lparr>classification = cl, confidence = conf, label = None,
                      provenance = Source ''pattern_analysis'', detail = Pattern_stats t f,
                      adjusted_by = None\<rparr>)"

subsection \<open>analyze_single_url and analyze_links\<close>

type_synonym link_cache = "string \<rightharpoonup> verdict"

definition cache_key :: "string \<Rightarrow> string" where
  "cache_key domain = ''domain:'' @ domain"

definition analyze_single_url :: "cc_analyzer \<Rightarrow> link_cache \<Rightarrow> string \<Rightarrow> verdict \<times> link_cache" where
  "analyze_single_url c cache url =
    (let domain = get_domain_from_url c url in
     case cache (cache_key domain) of
       Some cached \<Rightarrow> (cached, cache)
     | None \<Rightarrow>
         let result = analyze_domain_content c domain
         in (result, cache(cache_key domain \<mapsto> result)))"

text \<open>The loop over the domains: the results so far and the cache are the state.\<close>

fun analyze_each_domain ::
  "cc_analyzer \<Rightarrow> (string \<times> verdict) list \<times> link_cache \<Rightarrow> string list \<Rightarrow> (string \<times> verdict) list \<times> link_cache"
where
  "analyze_each_domain c (results, cache) [] = (results, cache)"
| "analyze_each_domain c (results, cache) (domain # domains) =
    (case check_known_domain_stance domain of
       Some known_stance \<Rightarrow> analyze_each_domain c (results @ [(domain, known_stance)], cache) domains
     | None \<Rightarrow>
         if length results \<ge> 5 then analyze_each_domain c (results, cache) domains
         else
           (case cache (cache_key domain) of
              Some cached \<Rightarrow> analyze_each_domain c (results @ [(domain, cached)], cache) domains
            | None \<Rightarrow>
                let result = analyze_domain_content c domain
                in analyze_each_domain c
                     (results @ [(domain, result)], cache(cache_key domain \<mapsto> result)) domains))"

definition link_error :: "string \<Rightarrow> verdict" where
  "link_error reason = \<lparr>classification = 1, confidence = 0.1, label = None,
     provenance = Error reason, detail = No_detail, adjusted_by = None\<rparr>"

definition link_domains :: "cc_analyzer \<Rightarrow> string list \<Rightarrow> string list" where
  "link_domains c links =
    set_iteration c (filter (\<lambda>domain. domain \<noteq> []) (map (get_domain_from_url c) links))"

definition aggregate_results :: "cc_analyzer \<Rightarrow> (string \<times> verdict) list \<Rightarrow> verdict" where
  "aggregate_results c results =
    (if results = [] then link_error ''no_analysis_results''
     else
       let classifications = map (\<lambda>(domain, r). classification r) results;
           confidences = map (\<lambda>(domain, r). confidence r) results;
           weighted_avg = weighted_average (cc_float_quotient c) classifications confidences;
           overall_confidence = sum_list confidences / real (length confidences)
       in \<lparr>classification = final_classification weighted_avg, confidence = overall_confidence,
           label = None, provenance = Untagged,
           detail = Link_stats weighted_avg (length results)
             (map (\<lambda>(domain, r). (domain, classification r, confidence r)) results),
           adjusted_by = None\<rparr>)"

text \<open>The keys \<open>domain_results\<close> and \<open>domains_analyzed\<close> of an aggregate.\<close>

definition domain_results :: "verdict \<Rightarrow> (string \<times> int \<times> real) list" where
  "domain_results v = (case detail v of Link_stats weighted_avg n rs \<Rightarrow> rs | _ \<Rightarrow> [])"

definition domains_analyzed :: "verdict \<Rightarrow> nat" where
  "domains_analyzed v = (case detail v of Link_stats weighted_avg n rs \<Rightarrow> n | _ \<Rightarrow> 0)"

definition analyze_links :: "cc_analyzer \<Rightarrow> link_cache \<Rightarrow> string list \<Rightarrow> verdict \<times> link_cache" where
  "analyze_links c cache links =
    (if links = [] then (link_error ''no_links'', cache)
     else
       let domains = link_domains c links in
       if domains = [] then (link_error ''no_valid_domains'', cache)
       else
         let (results, cache') = analyze_each_domain c ([], cache) domains
         in (aggregate_results c results, cache'))"

section \<open>Reconciling a verdict with the verdict of the linked sites\<close>

text \<open>
  The request handlers \<open>analyze_profile\<close> and \<open>analyze_url\<close> of the application adjust
  the verdict of the content analyzer by the verdict of the Common Crawl analyzer,
  in place; the other keys of the dictionary stay as they are. Every verdict of the
  Common Crawl analyzer has the keys \<open>classification\<close> and \<open>confidence\<close>, so the
  defaults that \<open>analyze_url\<close> passes to \<open>get\<close> are never used.
\<close>

definition reconcile_profile :: "verdict \<Rightarrow> verdict \<Rightarrow> verdict" where
  "reconcile_profile result cc_results =
    (if confidence result < 0.6 \<and> confidence cc_results > 0.7 then
       result\<lparr>classification := classification cc_results,
              confidence := (confidence result + confidence cc_results) / 2,
              adjusted_by := Some ''linked_sites''\<rparr>
     else result)"

definition reconcile_url :: "verdict \<Rightarrow> verdict \<Rightarrow> verdict" where
  "reconcile_url result cc_result =
    (if confidence result < 0.6 \<and> confidence cc_result > 0.7 then
       result\<lparr>classification := classification cc_result,
              confidence := (confidence result + confidence cc_result) / 2,
              adjusted_by := Some ''common_crawl''\<rparr>
     else result)"

section \<open>Well-formed verdicts\<close>

text \<open>
  The invariant of a verdict: the classification is 0, 1 or 2, the confidence lies
  between 0 and 1, and a verdict that reports missing data has a confidence of at
  most 0.1. A cache is well formed when every verdict in it is.
\<close>

definition in_range :: "verdict \<Rightarrow> bool" where
  "in_range v = (classification v \<in> {0, 1, 2} \<and> 0 \<le> confidence v \<and> confidence v \<le> 1)"

definition no_data :: "verdict \<Rightarrow> bool" where
  "no_data v =
    (provenance v \<in> {Error ''insufficient_text'', Error ''no_posts'', Source ''no_cc_data'',
       Source ''no_content_extracted'', Error ''no_valid_domains''})"

definition well_formed :: "verdict \<Rightarrow> bool" where
  "well_formed v = (in_range v \<and> (no_data v \<longrightarrow> confidence v \<le> 0.1))"

definition cache_ok :: "link_cache \<Rightarrow> bool" where
  "cache_ok cache = (\<forall>k v. cache k = Some v \<longrightarrow> well_formed v)"

definition results_ok :: "(string \<times> verdict) list \<Rightarrow> bool" where
  "results_ok rs = (\<forall>r \<in> set rs. well_formed (snd r))"

section \<open>Sample analyzers\<close>

text \<open>
  Concrete collaborators, on which the theorems below are instantiated. The sample
  regular expression engine knows the match counts of the third transphobic pattern
  and of the first friendly pattern on a few texts (the counts that \<open>re.findall\<close>
  gives there; no other pattern matches in them) and finds no match anywhere else.
  The sample quotient does not round.
\<close>

definition exact_quotient :: "int list \<Rightarrow> real list \<Rightarrow> real" where
  "exact_quotient classifications confidences =
    sum_list (map (\<lambda>(c, conf). real_of_int c * conf) (zip classifications confidences))
      / sum_list confidences"

definition sample_text_7_3 :: string where
  "sample_text_7_3 = concat (replicate 7 ''transgenderism '') @ ''trans rights trans rights trans rights''"

definition sample_counts :: "(string \<times> nat \<times> nat) list" where
  "sample_counts =
    [(''gender ideology'', 1, 0), (''trans rights'', 0, 1),
     (''trans rights and gender ideology'', 1, 1), (sample_text_7_3, 7, 3)]"

definition sample_findall :: "string \<Rightarrow> string \<Rightarrow> nat" where
  "sample_findall p s =
    (case map_of sample_counts s of
       None \<Rightarrow> 0
     | Some (t, f) \<Rightarrow>
         if p = transphobic_patterns ! 2 then t else if p = friendly_patterns ! 0 then f else 0)"

definition pattern_only_analyzer :: content_analyzer where
  "pattern_only_analyzer = \<lparr>ollama_available = False, nlp = None,
     ollama_post = (\<lambda>prompt. Request_failed), findall_count = sample_findall,
     float_quotient = exact_quotient\<rparr>"

definition undecided_backend :: content_analyzer where
  "undecided_backend = \<lparr>ollama_available = True, nlp = None,
     ollama_post = (\<lambda>prompt. Http_response 200 (Json_object (Some ''unsure''))),
     findall_count = sample_findall,
     float_quotient = exact_quotient\<rparr>"

definition failing_backend :: content_analyzer where
  "failing_backend = \<lparr>ollama_available = True, nlp = None,
     ollama_post = (\<lambda>prompt. Http_response 503 Undecodable),
     findall_count = sample_findall,
     float_quotient = exact_quotient\<rparr>"

definition friendly_primary :: verdict where
  "friendly_primary = \<lparr>classification = 0, confidence = 0.6, label = Some ''t-friendly'',
     provenance = Method ''ollama'', detail = No_detail, adjusted_by = None\<rparr>"

definition confident_secondary :: verdict where
  "confident_secondary = \<lparr>classification = 2, confidence = 0.95, label = None,
     provenance = Untagged, detail = No_detail, adjusted_by = None\<rparr>"

definition unsure_primary :: verdict where
  "unsure_primary = \<lparr>classification = 1, confidence = 0.5, label = Some ''gray-area'',
     provenance = Method ''pattern_matching'', detail = No_detail, adjusted_by = None\<rparr>"

definition transphobic_secondary :: verdict where
  "transphobic_secondary = \<lparr>classification = 2, confidence = 0.75, label = None,
     provenance = Untagged, detail = No_detail, adjusted_by = None\<rparr>"

text \<open>
  A sample crawl: the index has one record for \<open>example.org\<close>, whose range request
  is answered with status 206 and a page that reads \<open>gender ideology\<close>, one for
  \<open>example.net\<close>, whose page reads \<open>trans rights\<close>, and nothing for any other
  domain. The sample set iterates in the order of insertion.
\<close>

definition sample_index :: "string \<Rightarrow> cc_record list" where
  "sample_index domain =
    (if domain = ''example.org'' then [\<lparr>rec_filename = ''org.warc.gz'', rec_offset = 0, rec_length = 64\<rparr>]
     else if domain = ''example.net'' then [\<lparr>rec_filename = ''net.warc.gz'', rec_offset = 0, rec_length = 64\<rparr>]
     else [])"

definition sample_range_request :: "cc_record \<Rightarrow> (nat \<times> string) option" where
  "sample_range_request r =
    (if rec_filename r = ''org.warc.gz'' then Some (206, ''<p>gender ideology</p>'')
     else if rec_filename r = ''net.warc.gz'' then Some (206, ''<p>trans rights</p>'')
     else None)"

definition sample_extract :: "string \<Rightarrow> string" where
  "sample_extract html =
    (if html = ''<p>gender ideology</p>'' then ''gender ideology''
     else if html = ''<p>trans rights</p>'' then ''trans rights'' else [])"

definition sample_crawl :: cc_analyzer where
  "sample_crawl = \<lparr>index_lines = sample_index, range_request = sample_range_request,
     extract_text_from_html = sample_extract, cc_findall_count = sample_findall,
     bracketed_host_rejected = (\<lambda>host. True), set_iteration = remdups,
     cc_float_quotient = exact_quotient\<rparr>"

definition sample_links :: "string list" where
  "sample_links =
    [''kiwifarms.net'', ''ovarit.com'', ''heritage.org'', ''breitbart.com'', ''glaad.org'', ''example.org'']"

definition known_transphobic :: verdict where
  "known_transphobic = \<lparr>classification = 2, confidence = 0.85, label = None,
     provenance = Source ''known_transphobic_domain'', detail = No_detail, adjusted_by = None\<rparr>"

definition known_transfriendly :: verdict where
  "known_transfriendly = \<lparr>classification = 0, confidence = 0.85, label = None,
     provenance = Source ''known_transfriendly_domain'', detail = No_detail, adjusted_by = None\<rparr>"

section \<open>Evaluating the sample analyzers\<close>

lemma sample_pattern_counts:
  "transphobic_count pattern_only_analyzer ''gender ideology'' = 1"
  "friendly_count pattern_only_analyzer ''gender ideology'' = 0"
  "transphobic_count pattern_only_analyzer ''trans rights'' = 0"
  "friendly_count pattern_only_analyzer ''trans rights'' = 1"
  "transphobic_count pattern_only_analyzer ''trans rights and gender ideology'' = 1"
  "friendly_count pattern_only_analyzer ''trans rights and gender ideology'' = 1"
  "transphobic_count pattern_only_analyzer ''hello world'' = 0"
  "friendly_count pattern_only_analyzer ''hello world'' = 0"
  "transphobic_count pattern_only_analyzer ''a b c'' = 0"
  "friendly_count pattern_only_analyzer ''a b c'' = 0"
  "transphobic_count pattern_only_analyzer sample_text_7_3 = 7"
  "friendly_count pattern_only_analyzer sample_text_7_3 = 3"
  by code_simp+

lemma sample_backends:
  "ollama_available undecided_backend"
  "ollama_post undecided_backend q = Http_response 200 (Json_object (Some ''unsure''))"
  "ollama_available failing_backend"
  "ollama_post failing_backend q = Http_response 503 Undecodable"
  "ollama_available pattern_only_analyzer = False"
  by (simp_all add: undecided_backend_def failing_backend_def pattern_only_analyzer_def)

lemma strip_samples:
  "strip ''a b c'' = ''a b c''"
  "strip ''hello world'' = ''hello world''"
  "strip ''gender ideology'' = ''gender ideology''"
  "strip ''trans rights'' = ''trans rights''"
  by code_simp+

lemma preprocess_samples:
  "preprocess_text pattern_only_analyzer ''a b c'' = ''a b c''"
  "preprocess_text undecided_backend ''hello world'' = ''hello world''"
  "preprocess_text failing_backend ''hello world'' = ''hello world''"
  "preprocess_text pattern_only_analyzer ''hello world'' = ''hello world''"
  "preprocess_text pattern_only_analyzer ''gender ideology'' = ''gender ideology''"
  "preprocess_text pattern_only_analyzer ''trans rights'' = ''trans rights''"
  by code_simp+

lemma hello_pattern_verdict:
  "analyze_with_patterns failing_backend ''hello world'' =
     \<lparr>classification = 1, confidence = 0.3, label = Some ''gray-area'',
      provenance = Method ''pattern_matching'', detail = No_detail, adjusted_by = None\<rparr>"
  by (simp add: analyze_with_patterns_def transphobic_count_def friendly_count_def
      failing_backend_def sample_findall_def sample_counts_def sample_text_7_3_def labels_def
      lower_def lower_char_def)

lemma sample_verdicts:
  "fst (analyze_text pattern_only_analyzer ''gender ideology'') =
     \<lparr>classification = 2, confidence = 0.95, label = Some ''transphobic'',
      provenance = Method ''pattern_matching'', detail = Pattern_stats 1 0, adjusted_by = None\<rparr>"
  "fst (analyze_text pattern_only_analyzer ''trans rights'') =
     \<lparr>classification = 0, confidence = 0.95, label = Some ''t-friendly'',
      provenance = Method ''pattern_matching'', detail = Pattern_stats 0 1, adjusted_by = None\<rparr>"
  by (simp_all add: analyze_text_def strip_samples preprocess_samples sample_backends
      analyze_with_patterns_def sample_pattern_counts labels_def)

lemma sample_records:
  "fetch_cc_records_for_domain sample_crawl ''example.org'' =
     [\<lparr>rec_filename = ''org.warc.gz'', rec_offset = 0, rec_length = 64\<rparr>]"
  "fetch_cc_records_for_domain sample_crawl ''example.com'' = []"
  "range_request sample_crawl \<lparr>rec_filename = ''org.warc.gz'', rec_offset = 0, rec_length = 64\<rparr> =
     Some (206, ''<p>gender ideology</p>'')"
  "extract_text_from_html sample_crawl ''<p>gender ideology</p>'' = ''gender ideology''"
  by (simp_all add: fetch_cc_records_for_domain_def sample_crawl_def sample_index_def
      sample_range_request_def sample_extract_def)

lemma sample_site_counts:
  "site_transphobic_count sample_crawl [''gender ideology''] = 1"
  "site_friendly_count sample_crawl [''gender ideology''] = 0"
  by code_simp+

lemma sample_unknown:
  "check_known_domain_stance ''example.org'' = None"
  "check_known_domain_stance ''example.net'' = None"
  "check_known_domain_stance ''example.com'' = None"
  by (simp_all add: check_known_domain_stance_def known_transphobic_domains_def
      known_transfriendly_domains_def)

lemma sample_link_domains:
  "link_domains sample_crawl sample_links = sample_links"
  "link_domains sample_crawl (rev sample_links) = rev sample_links"
  by code_simp+

lemma sample_known:
  "check_known_domain_stance ''kiwifarms.net'' = Some known_transphobic"
  "check_known_domain_stance ''ovarit.com'' = Some known_transphobic"
  "check_known_domain_stance ''heritage.org'' = Some known_transphobic"
  "check_known_domain_stance ''breitbart.com'' = Some known_transphobic"
  "check_known_domain_stance ''glaad.org'' = Some known_transfriendly"
  by (simp_all add: check_known_domain_stance_def known_transphobic_domains_def
      known_transfriendly_domains_def known_transphobic_def known_transfriendly_def)

lemma sample_loop:
  "analyze_each_domain sample_crawl ([], Map.empty) sample_links =
     ([(''kiwifarms.net'', known_transphobic), (''ovarit.com'', known_transphobic),
       (''heritage.org'', known_transphobic), (''breitbart.com'', known_transphobic),
       (''glaad.org'', known_transfriendly)], Map.empty)"
  by (simp add: sample_links_def sample_known sample_unknown)

lemma sample_aggregate:
  "domain_results (fst (analyze_links sample_crawl Map.empty sample_links)) =
     [(''kiwifarms.net'', 2, 0.85), (''ovarit.com'', 2, 0.85), (''heritage.org'', 2, 0.85),
      (''breitbart.com'', 2, 0.85), (''glaad.org'', 0, 0.85)]"
  "domains_analyzed (fst (analyze_links sample_crawl Map.empty sample_links)) = 5"
proof -
  have "sample_links \<noteq> []" by (simp add: sample_links_def)
  then show
    "domain_results (fst (analyze_links sample_crawl Map.empty sample_links)) =
       [(''kiwifarms.net'', 2, 0.85), (''ovarit.com'', 2, 0.85), (''heritage.org'', 2, 0.85),
        (''breitbart.com'', 2, 0.85), (''glaad.org'', 0, 0.85)]"
    "domains_analyzed (fst (analyze_links sample_crawl Map.empty sample_links)) = 5"
    by (simp_all add: analyze_links_def sample_link_domains sample_loop Let_def aggregate_results_def
        domain_results_def domains_analyzed_def known_transphobic_def known_transfriendly_def)
qed

lemma short_sample: "fst (analyze_text pattern_only_analyzer ''ok'') = insufficient_text"
  by (simp add: analyze_text_def strip_def is_space_def)

lemma breitbart_domain: "get_domain_from_url sample_crawl ''https://breitbart.com/'' = ''breitbart.com''"
  by code_simp

lemma breitbart_verdict:
  "fst (analyze_single_url sample_crawl Map.empty ''https://breitbart.com/'') = known_transphobic"
  by (simp add: analyze_single_url_def breitbart_domain analyze_domain_content_def sample_known)

section \<open>The range of the classifiers\<close>

lemma digit_value_range: "digit_value d \<in> {0, 1, 2}"
  by (simp add: digit_value_def)

lemma analyze_with_ollama_range:
  assumes "analyze_with_ollama a s = Some v"
  shows "classification v \<in> {0, 1, 2} \<and> confidence v = 0.8 \<and> provenance v = Method ''ollama''"
  using assms digit_value_range
  by (auto simp: analyze_with_ollama_def Let_def digit_value_def
      split: http_reply.splits json_body.splits if_splits option.splits)

lemma analyze_with_patterns_range:
  "classification (analyze_with_patterns a s) \<in> {0, 1, 2} \<and>
   0.3 \<le> confidence (analyze_with_patterns a s) \<and>
   confidence (analyze_with_patterns a s) \<le> 0.95 \<and>
   provenance (analyze_with_patterns a s) = Method ''pattern_matching''"
proof -
  define r where "r = real (transphobic_count a s) / real (transphobic_count a s + friendly_count a s)"
  show ?thesis
    unfolding analyze_with_patterns_def Let_def r_def [symmetric]
    by (auto simp: min_def)
qed

lemma analyze_text_range:
  "classification (fst (analyze_text a s)) \<in> {0, 1, 2} \<and>
   0.1 \<le> confidence (fst (analyze_text a s)) \<and>
   confidence (fst (analyze_text a s)) \<le> 0.95"
proof (cases "s = [] \<or> length (strip s) < 5")
  case True
  then show ?thesis by (simp add: analyze_text_def insufficient_text_def)
next
  case False
  show ?thesis
  proof (cases "ollama_available a")
    case avail: True
    show ?thesis
    proof (cases "analyze_with_ollama a (take 8000 (preprocess_text a s))")
      case None
      then show ?thesis
        using False avail analyze_with_patterns_range [of a "preprocess_text a s"]
        by (simp add: analyze_text_def Let_def)
    next
      case (Some v)
      then show ?thesis
        using False avail analyze_with_ollama_range [OF Some]
        by (simp add: analyze_text_def Let_def)
    qed
  next
    case unavail: False
    then show ?thesis
      using False analyze_with_patterns_range [of a "preprocess_text a s"]
      by (simp add: analyze_text_def Let_def)
  qed
qed

lemma np_std_single: "np_std [c] = 0"
  by (simp add: np_std_def)

lemma weighted_average_single: "w > 0 \<Longrightarrow> weighted_average q [c] [w] = real_of_int c"
  by (simp add: weighted_average_def)

lemma final_classification_label: "c \<in> {0, 1, 2} \<Longrightarrow> final_classification (real_of_int c) = c"
  by (auto simp: final_classification_def)

subsection \<open>The standard deviation of labels\<close>

lemma sum_squares_shift:
  fixes f :: "'a \<Rightarrow> real"
  shows "(\<Sum>x\<leftarrow>xs. (f x - m) ^ 2) =
    (\<Sum>x\<leftarrow>xs. (f x - 1) ^ 2) - 2 * (m - 1) * ((\<Sum>x\<leftarrow>xs. f x) - real (length xs))
      + real (length xs) * (m - 1) ^ 2"
  by (induction xs) (simp_all add: algebra_simps power2_eq_square)

lemma sum_squares_labels:
  assumes "\<forall>x \<in> set xs. x \<in> {0, 1, 2 :: int}"
  shows "(\<Sum>x\<leftarrow>xs. (real_of_int x - 1) ^ 2) \<le> real (length xs)"
  using assms by (induction xs) auto

lemma np_std_labels:
  assumes "xs \<noteq> []" "\<forall>x \<in> set xs. x \<in> {0, 1, 2 :: int}"
  shows "0 \<le> np_std xs \<and> np_std xs \<le> 1"
proof -
  define n where "n = real (length xs)"
  define m where "m = (\<Sum>x\<leftarrow>xs. real_of_int x) / n"
  define q where "q = (\<Sum>x\<leftarrow>xs. (real_of_int x - m) ^ 2)"
  have n_pos: "n > 0" using assms(1) by (simp add: n_def)
  have sum_eq: "(\<Sum>x\<leftarrow>xs. real_of_int x) = n * m"
    using n_pos by (simp add: m_def)
  have "q = (\<Sum>x\<leftarrow>xs. (real_of_int x - 1) ^ 2) - 2 * (m - 1) * (n * m - n) + n * (m - 1) ^ 2"
    unfolding q_def n_def
    using sum_squares_shift [of real_of_int m xs] sum_eq by (simp add: n_def)
  also have "\<dots> = (\<Sum>x\<leftarrow>xs. (real_of_int x - 1) ^ 2) - n * (m - 1) ^ 2"
    by (simp add: algebra_simps power2_eq_square)
  also have "\<dots> \<le> (\<Sum>x\<leftarrow>xs. (real_of_int x - 1) ^ 2)"
    using n_pos by simp
  also have "\<dots> \<le> n"
    unfolding n_def using assms(2) by (rule sum_squares_labels)
  finally have upper: "q / n \<le> 1"
    using n_pos by simp
  have "q \<ge> 0"
    unfolding q_def by (rule sum_list_nonneg) auto
  then have lower: "0 \<le> q / n"
    using n_pos by simp
  have "np_std xs = sqrt (q / n)"
    by (simp add: np_std_def Let_def q_def m_def n_def)
  then show ?thesis
    using upper lower by simp
qed

lemma profile_labels:
  "\<forall>x \<in> set (map classification (map (\<lambda>post. fst (analyze_text a post)) ps)). x \<in> {0, 1, 2}"
  using analyze_text_range by auto

section \<open>The verdict of the pattern matcher\<close>

text \<open>
  Claim C5. For every analyzer and every text, with \<open>t\<close> and \<open>f\<close> the numbers of
  matches of the transphobic and of the friendly patterns in the lower-cased text,
  \<open>analyze_with_patterns\<close> returns gray area (1) with confidence 0.3 when \<open>t + f = 0\<close>;
  otherwise, with \<open>ratio = t / (t + f)\<close>, it returns transphobic (2) with confidence
  \<open>min 0.95 (0.5 + 1.5 * (ratio - 0.7))\<close> when \<open>ratio > 0.7\<close>, friendly (0) with
  confidence \<open>min 0.95 (0.5 + 1.5 * (0.3 - ratio))\<close> when \<open>ratio < 0.3\<close>, and gray area
  with confidence 0.3 on the rest, the two boundaries \<open>ratio = 0.7\<close> and \<open>ratio = 0.3\<close>
  included.
\<close>

theorem C5_pattern_verdict:
  "(let t = transphobic_count a s; f = friendly_count a s;
        ratio = real t / real (t + f); v = analyze_with_patterns a s
    in (t + f = 0 \<longrightarrow> classification v = 1 \<and> confidence v = 0.3) \<and>
       (t + f \<noteq> 0 \<and> ratio > 0.7 \<longrightarrow>
          classification v = 2 \<and> confidence v = min 0.95 (0.5 + 1.5 * (ratio - 0.7))) \<and>
       (t + f \<noteq> 0 \<and> ratio < 0.3 \<longrightarrow>
          classification v = 0 \<and> confidence v = min 0.95 (0.5 + 1.5 * (0.3 - ratio))) \<and>
       (t + f \<noteq> 0 \<and> 0.3 \<le> ratio \<and> ratio \<le> 0.7 \<longrightarrow> classification v = 1 \<and> confidence v = 0.3))"
proof -
  define t where "t = transphobic_count a s"
  define f where "f = friendly_count a s"
  define r where "r = real t / real (t + f)"
  define v where "v = analyze_with_patterns a s"
  have zero: "classification v = 1 \<and> confidence v = 0.3" if "t + f = 0"
    using that unfolding v_def analyze_with_patterns_def Let_def t_def f_def by simp
  have nonzero: "classification v = (if r > 0.7 then 2 else if r < 0.3 then 0 else 1) \<and>
      confidence v = (if r > 0.7 then min (0.5 + (r - 0.7) * 1.5) 0.95
                      else if r < 0.3 then min (0.5 + (0.3 - r) * 1.5) 0.95 else min 0.3 0.95)"
    if "t + f \<noteq> 0"
    using that unfolding v_def analyze_with_patterns_def Let_def r_def t_def f_def by simp
  have "(t + f = 0 \<longrightarrow> classification v = 1 \<and> confidence v = 0.3) \<and>
       (t + f \<noteq> 0 \<and> r > 0.7 \<longrightarrow>
          classification v = 2 \<and> confidence v = min 0.95 (0.5 + 1.5 * (r - 0.7))) \<and>
       (t + f \<noteq> 0 \<and> r < 0.3 \<longrightarrow>
          classification v = 0 \<and> confidence v = min 0.95 (0.5 + 1.5 * (0.3 - r))) \<and>
       (t + f \<noteq> 0 \<and> 0.3 \<le> r \<and> r \<le> 0.7 \<longrightarrow> classification v = 1 \<and> confidence v = 0.3)"
    using zero nonzero by (auto simp: min_def)
  then show ?thesis
    unfolding Let_def t_def f_def r_def v_def .
qed

text \<open>
  No match in \<open>hello world\<close>; one transphobic match (ratio 1); one friendly match
  (ratio 0); seven transphobic and three friendly matches (ratio 0.7, the boundary).
\<close>

theorem C5_pattern_verdict_witness:
  "transphobic_count pattern_only_analyzer ''hello world'' +
     friendly_count pattern_only_analyzer ''hello world'' = 0 \<and>
   transphobic_count pattern_only_analyzer ''gender ideology'' = 1 \<and>
   friendly_count pattern_only_analyzer ''gender ideology'' = 0 \<and>
   transphobic_count pattern_only_analyzer ''trans rights'' = 0 \<and>
   friendly_count pattern_only_analyzer ''trans rights'' = 1 \<and>
   transphobic_count pattern_only_analyzer sample_text_7_3 = 7 \<and>
   friendly_count pattern_only_analyzer sample_text_7_3 = 3 \<and>
   classification (analyze_with_patterns pattern_only_analyzer ''hello world'') = 1 \<and>
   confidence (analyze_with_patterns pattern_only_analyzer ''hello world'') = 0.3 \<and>
   classification (analyze_with_patterns pattern_only_analyzer ''gender ideology'') = 2 \<and>
   confidence (analyze_with_patterns pattern_only_analyzer ''gender ideology'') = 0.95 \<and>
   classification (analyze_with_patterns pattern_only_analyzer ''trans rights'') = 0 \<and>
   confidence (analyze_with_patterns pattern_only_analyzer ''trans rights'') = 0.95 \<and>
   classification (analyze_with_patterns pattern_only_analyzer sample_text_7_3) = 1 \<and>
   confidence (analyze_with_patterns pattern_only_analyzer sample_text_7_3) = 0.3"
  using C5_pattern_verdict [of pattern_only_analyzer "''hello world''"]
    C5_pattern_verdict [of pattern_only_analyzer "''gender ideology''"]
    C5_pattern_verdict [of pattern_only_analyzer "''trans rights''"]
    C5_pattern_verdict [of pattern_only_analyzer sample_text_7_3]
  by (simp add: Let_def sample_pattern_counts)

section \<open>Texts that are too short\<close>

text \<open>
  Claim C2, as the code has it. The guard of \<open>analyze_text\<close> measures the text after
  stripping the white space at its two ends, white space inside included: for every
  text whose stripped length is below 5 (the empty text among them) the result is
  the verdict gray area (1) with confidence 0.1 and the error \<open>insufficient_text\<close>,
  and neither classifier is called; every other text reaches a classifier.
\<close>

theorem C2_stripped_length:
  "(length (strip s) < 5 \<longrightarrow>
      analyze_text a s = (insufficient_text, []) \<and>
      classification insufficient_text = 1 \<and> confidence insufficient_text = 0.1 \<and>
      provenance insufficient_text = Error ''insufficient_text'') \<and>
   (length (strip s) \<ge> 5 \<longrightarrow> snd (analyze_text a s) \<noteq> [])"
  by (auto simp: analyze_text_def insufficient_text_def strip_def Let_def split: option.splits)

theorem C2_stripped_length_witness:
  "length (strip ''  hi  '') < 5 \<and> length (strip ''hello world'') \<ge> 5 \<and>
   analyze_text pattern_only_analyzer ''  hi  '' = (insufficient_text, []) \<and>
   confidence insufficient_text = 0.1 \<and>
   snd (analyze_text pattern_only_analyzer ''hello world'') \<noteq> []"
  using C2_stripped_length [of "''  hi  ''" pattern_only_analyzer]
    C2_stripped_length [of "''hello world''" pattern_only_analyzer]
  by (simp add: strip_def is_space_def insufficient_text_def)

text \<open>
  The text \<open>a b c\<close> has three characters that are not white space, and is classified
  by the pattern matcher, with confidence 0.3.
\<close>

theorem C2_counterexample:
  "length (filter (\<lambda>c. \<not> is_space c) ''a b c'') = 3 \<and>
   analyze_text pattern_only_analyzer ''a b c'' =
     (\<lparr>classification = 1, confidence = 0.3, label = Some ''gray-area'',
       provenance = Method ''pattern_matching'', detail = No_detail, adjusted_by = None\<rparr>,
      [Pattern_call ''a b c''])"
proof (intro conjI)
  show "length (filter (\<lambda>c. \<not> is_space c) ''a b c'') = 3"
    by code_simp
  show "analyze_text pattern_only_analyzer ''a b c'' =
     (\<lparr>classification = 1, confidence = 0.3, label = Some ''gray-area'',
       provenance = Method ''pattern_matching'', detail = No_detail, adjusted_by = None\<rparr>,
      [Pattern_call ''a b c''])"
    by (simp add: analyze_text_def strip_samples preprocess_samples sample_backends
        analyze_with_patterns_def sample_pattern_counts labels_def)
qed

section \<open>A reply of the backend without a digit\<close>

lemma find_digit_strip:
  assumes "\<forall>c \<in> set r. \<not> digit_0_2 c"
  shows "find digit_0_2 (strip r) = None"
proof -
  have "set (strip r) \<subseteq> set r"
    by (auto simp: strip_def dest!: set_dropWhileD)
  then show ?thesis
    using assms by (auto simp: find_None_iff)
qed

text \<open>
  Claim C1, as the code has it. For every text that passes the length guard, with the
  backend available: when the reply has status 200 and its response text holds no
  digit 0, 1 or 2, \<open>analyze_with_ollama\<close> does not signal unavailable; it defaults to
  gray area (1) with confidence 0.8 and method \<open>ollama\<close>, and \<open>analyze_text\<close> returns
  that verdict without calling the pattern matcher. The pattern matcher is the
  fallback when the request fails, the status is not 200, or the body cannot be
  decoded.
\<close>

theorem C1_undecided_reply:
  "length (strip s) \<ge> 5 \<and> ollama_available a \<longrightarrow>
     (let sent = take 8000 (preprocess_text a s); reply = ollama_post a (ollama_prompt sent) in
        ((\<exists>r. reply = Http_response 200 (Json_object (Some r)) \<and> (\<forall>c \<in> set r. \<not> digit_0_2 c)) \<longrightarrow>
           analyze_text a s =
             (\<lparr>classification = 1, confidence = 0.8, label = Some ''gray-area'',
               provenance = Method ''ollama'', detail = No_detail, adjusted_by = None\<rparr>,
              [Ollama_call sent])) \<and>
        ((reply = Request_failed \<or> (\<exists>code body. reply = Http_response code body \<and> code \<noteq> 200) \<or>
          reply = Http_response 200 Undecodable) \<longrightarrow>
           analyze_text a s =
             (analyze_with_patterns a (preprocess_text a s),
              [Ollama_call sent, Pattern_call (preprocess_text a s)])))"
proof (intro impI)
  assume pre: "length (strip s) \<ge> 5 \<and> ollama_available a"
  then have ne: "s \<noteq> []" by (auto simp: strip_def)
  define sent where "sent = take 8000 (preprocess_text a s)"
  define reply where "reply = ollama_post a (ollama_prompt sent)"
  have text_eq: "analyze_text a s =
      (case analyze_with_ollama a sent of
         Some v \<Rightarrow> (v, [Ollama_call sent])
       | None \<Rightarrow> (analyze_with_patterns a (preprocess_text a s),
                  [Ollama_call sent, Pattern_call (preprocess_text a s)]))"
    using pre ne unfolding sent_def by (simp add: analyze_text_def Let_def split: option.split)
  have undecided: "analyze_text a s =
        (\<lparr>classification = 1, confidence = 0.8, label = Some ''gray-area'',
          provenance = Method ''ollama'', detail = No_detail, adjusted_by = None\<rparr>,
         [Ollama_call sent])"
    if "reply = Http_response 200 (Json_object (Some r))" "\<forall>c \<in> set r. \<not> digit_0_2 c" for r
  proof -
    have "analyze_with_ollama a sent =
        Some \<lparr>classification = 1, confidence = 0.8, label = Some ''gray-area'',
          provenance = Method ''ollama'', detail = No_detail, adjusted_by = None\<rparr>"
      using that(1) find_digit_strip [OF that(2)]
      by (simp add: analyze_with_ollama_def reply_def [symmetric] labels_def)
    then show ?thesis by (simp add: text_eq)
  qed
  have failed: "analyze_text a s =
        (analyze_with_patterns a (preprocess_text a s),
         [Ollama_call sent, Pattern_call (preprocess_text a s)])"
    if "reply = Request_failed \<or> (\<exists>code body. reply = Http_response code body \<and> code \<noteq> 200) \<or>
        reply = Http_response 200 Undecodable"
  proof -
    have "analyze_with_ollama a sent = None"
      using that by (auto simp: analyze_with_ollama_def reply_def [symmetric])
    then show ?thesis by (simp add: text_eq)
  qed
  show "let sent = take 8000 (preprocess_text a s); reply = ollama_post a (ollama_prompt sent) in
        ((\<exists>r. reply = Http_response 200 (Json_object (Some r)) \<and> (\<forall>c \<in> set r. \<not> digit_0_2 c)) \<longrightarrow>
           analyze_text a s =
             (\<lparr>classification = 1, confidence = 0.8, label = Some ''gray-area'',
               provenance = Method ''ollama'', detail = No_detail, adjusted_by = None\<rparr>,
              [Ollama_call sent])) \<and>
        ((reply = Request_failed \<or> (\<exists>code body. reply = Http_response code body \<and> code \<noteq> 200) \<or>
          reply = Http_response 200 Undecodable) \<longrightarrow>
           analyze_text a s =
             (analyze_with_patterns a (preprocess_text a s),
              [Ollama_call sent, Pattern_call (preprocess_text a s)]))"
    unfolding Let_def sent_def [symmetric] reply_def [symmetric]
    using undecided failed by blast
qed

theorem C1_undecided_reply_witness:
  "length (strip ''hello world'') \<ge> 5 \<and> ollama_available undecided_backend \<and>
   ollama_available failing_backend \<and>
   ollama_post undecided_backend (ollama_prompt ''hello world'') =
     Http_response 200 (Json_object (Some ''unsure'')) \<and>
   ollama_post failing_backend (ollama_prompt ''hello world'') = Http_response 503 Undecodable \<and>
   analyze_text undecided_backend ''hello world'' =
     (\<lparr>classification = 1, confidence = 0.8, label = Some ''gray-area'',
       provenance = Method ''ollama'', detail = No_detail, adjusted_by = None\<rparr>,
      [Ollama_call ''hello world'']) \<and>
   analyze_text failing_backend ''hello world'' =
     (\<lparr>classification = 1, confidence = 0.3, label = Some ''gray-area'',
       provenance = Method ''pattern_matching'', detail = No_detail, adjusted_by = None\<rparr>,
      [Ollama_call ''hello world'', Pattern_call ''hello world''])"
  using C1_undecided_reply [of "''hello world''" undecided_backend]
    C1_undecided_reply [of "''hello world''" failing_backend]
  by (simp add: strip_samples preprocess_samples hello_pattern_verdict Let_def digit_0_2_def
      sample_backends)

text \<open>
  The backend answers \<open>unsure\<close> with status 200: the verdict comes from the model,
  and the pattern matcher is never called.
\<close>

theorem C1_counterexample:
  "ollama_post undecided_backend (ollama_prompt ''hello world'') =
     Http_response 200 (Json_object (Some ''unsure'')) \<and>
   find digit_0_2 ''unsure'' = None \<and>
   analyze_with_ollama undecided_backend ''hello world'' \<noteq> None \<and>
   provenance (fst (analyze_text undecided_backend ''hello world'')) = Method ''ollama'' \<and>
   snd (analyze_text undecided_backend ''hello world'') = [Ollama_call ''hello world'']"
  by (simp add: analyze_text_def strip_samples preprocess_samples analyze_with_ollama_def
      sample_backends strip_def is_space_def digit_0_2_def Let_def)

section \<open>Reconciliation\<close>

text \<open>
  Claim C3. For every pair of a primary and a secondary verdict, in both request
  handlers: when the confidence of the primary is below 0.6 and the confidence of the
  secondary is above 0.7, the result has the classification of the secondary and the
  mean of the two confidences; in every other case the primary is returned unchanged.
\<close>

theorem C3_reconcile:
  "(confidence p < 0.6 \<and> confidence s > 0.7 \<longrightarrow>
      classification (reconcile_profile p s) = classification s \<and>
      confidence (reconcile_profile p s) = (confidence p + confidence s) / 2 \<and>
      classification (reconcile_url p s) = classification s \<and>
      confidence (reconcile_url p s) = (confidence p + confidence s) / 2) \<and>
   (\<not> (confidence p < 0.6 \<and> confidence s > 0.7) \<longrightarrow>
      reconcile_profile p s = p \<and> reconcile_url p s = p)"
  by (simp add: reconcile_profile_def reconcile_url_def)

text \<open>
  A primary of confidence 0.6 against a secondary of confidence 0.95 is unchanged;
  a primary of confidence 0.5 against a secondary of confidence 0.75 is overridden,
  with confidence 0.625.
\<close>

theorem C3_reconcile_witness:
  "confidence friendly_primary = 0.6 \<and> confidence confident_secondary = 0.95 \<and>
   confidence unsure_primary = 0.5 \<and> confidence transphobic_secondary = 0.75 \<and>
   reconcile_profile friendly_primary confident_secondary = friendly_primary \<and>
   reconcile_url friendly_primary confident_secondary = friendly_primary \<and>
   classification (reconcile_profile unsure_primary transphobic_secondary) = 2 \<and>
   confidence (reconcile_profile unsure_primary transphobic_secondary) = 0.625 \<and>
   classification (reconcile_url unsure_primary transphobic_secondary) = 2 \<and>
   confidence (reconcile_url unsure_primary transphobic_secondary) = 0.625"
  using C3_reconcile [of friendly_primary confident_secondary]
    C3_reconcile [of unsure_primary transphobic_secondary]
  by (simp add: friendly_primary_def confident_secondary_def unsure_primary_def
      transphobic_secondary_def)

section \<open>A profile of one post\<close>

text \<open>
  Claim C8. For every analyzer and every post, the profile of the one-element list of
  that post has the classification that \<open>analyze_text\<close> gives the post; the
  consistency is 1, the sample confidence 0.1, and the confidence exactly 0.55.
\<close>

theorem C8_single_post:
  "classification (analyze_profile a [p]) = classification (fst (analyze_text a p)) \<and>
   (\<exists>distribution. detail (analyze_profile a [p]) = Profile_stats 1 1 distribution) \<and>
   consistency [classification (fst (analyze_text a p))] = 1 \<and> sample_confidence [p] = 0.1 \<and>
   confidence (analyze_profile a [p]) = 0.55"
proof -
  define v where "v = fst (analyze_text a p)"
  have range: "classification v \<in> {0, 1, 2}" "confidence v > 0"
    using analyze_text_range [of a p] by (simp_all add: v_def)
  have avg: "weighted_average (float_quotient a) [classification v] [confidence v] =
      real_of_int (classification v)"
    using range(2) by (rule weighted_average_single)
  show ?thesis
    using range(1)
    by (simp add: analyze_profile_def Let_def v_def [symmetric] avg np_std_single consistency_def sample_confidence_def
        final_classification_label)
qed

theorem C8_single_post_witness:
  "classification (analyze_profile pattern_only_analyzer [''gender ideology'']) = 2 \<and>
   classification (fst (analyze_text pattern_only_analyzer ''gender ideology'')) = 2 \<and>
   detail (analyze_profile pattern_only_analyzer [''gender ideology'']) = Profile_stats 1 1 (1, 0, 0) \<and>
   confidence (analyze_profile pattern_only_analyzer [''gender ideology'']) = 0.55"
  using C8_single_post [of pattern_only_analyzer "''gender ideology''"]
  by (simp add: sample_verdicts analyze_profile_def Let_def)

section \<open>The consistency of a profile\<close>

text \<open>
  Claim C9, as the code has it. The consistency that \<open>analyze_profile\<close> reports is
  \<open>1 - np_std labels / 2\<close> as computed, with no clamp; none is needed: the labels
  are 0, 1 or 2, their standard deviation is at most 1, and so for every analyzer and
  every list of posts that is not empty the consistency lies between 0.5 and 1. It
  is never negative.
\<close>

theorem C9_consistency_range:
  "posts \<noteq> [] \<longrightarrow>
     (let labels_seen = map classification (map (\<lambda>post. fst (analyze_text a post)) (take 20 posts))
      in (\<exists>distribution. detail (analyze_profile a posts) =
            Profile_stats (length posts) (1 - np_std labels_seen / 2) distribution) \<and>
         consistency labels_seen = 1 - np_std labels_seen / 2 \<and>
         1 / 2 \<le> consistency labels_seen \<and> consistency labels_seen \<le> 1)"
proof
  assume ne: "posts \<noteq> []"
  define ls where "ls = map classification (map (\<lambda>post. fst (analyze_text a post)) (take 20 posts))"
  have "ls \<noteq> []" using ne by (simp add: ls_def)
  moreover have "\<forall>x \<in> set ls. x \<in> {0, 1, 2}"
    unfolding ls_def by (rule profile_labels)
  ultimately have std: "0 \<le> np_std ls \<and> np_std ls \<le> 1"
    by (rule np_std_labels)
  have "\<exists>distribution. detail (analyze_profile a posts) =
      Profile_stats (length posts) (1 - np_std ls / 2) distribution"
    using ne by (simp add: analyze_profile_def Let_def ls_def consistency_def)
  then show "let labels_seen = map classification (map (\<lambda>post. fst (analyze_text a post)) (take 20 posts))
      in (\<exists>distribution. detail (analyze_profile a posts) =
            Profile_stats (length posts) (1 - np_std labels_seen / 2) distribution) \<and>
         consistency labels_seen = 1 - np_std labels_seen / 2 \<and>
         1 / 2 \<le> consistency labels_seen \<and> consistency labels_seen \<le> 1"
    unfolding Let_def ls_def [symmetric] using std by (simp add: consistency_def)
qed

text \<open>One transphobic and one friendly post: the labels 2 and 0, of consistency 0.5.\<close>

theorem C9_consistency_range_witness:
  "[''gender ideology'', ''trans rights''] \<noteq> [] \<and>
   detail (analyze_profile pattern_only_analyzer [''gender ideology'', ''trans rights'']) =
     Profile_stats 2 (1 / 2) (1 / 2, 0, 1 / 2) \<and>
   consistency [2, 0] = 1 / 2"
  using C9_consistency_range [of "[''gender ideology'', ''trans rights'']" pattern_only_analyzer]
  by (simp add: sample_verdicts analyze_profile_def Let_def consistency_def np_std_def)

text \<open>No analyzer and no list of posts give a negative consistency.\<close>

theorem C9_counterexample:
  "\<not> (\<exists>a posts. posts \<noteq> [] \<and>
        consistency (map classification (map (\<lambda>post. fst (analyze_text a post)) (take 20 posts))) < 0)"
proof
  assume "\<exists>a posts. posts \<noteq> [] \<and>
        consistency (map classification (map (\<lambda>post. fst (analyze_text a post)) (take 20 posts))) < 0"
  then obtain a posts where ne: "posts \<noteq> []"
    and neg: "consistency (map classification (map (\<lambda>post. fst (analyze_text a post)) (take 20 posts))) < 0"
    by blast
  define ls where "ls = map classification (map (\<lambda>post. fst (analyze_text a post)) (take 20 posts))"
  have "ls \<noteq> []" using ne by (simp add: ls_def)
  moreover have "\<forall>x \<in> set ls. x \<in> {0, 1, 2}"
    unfolding ls_def by (rule profile_labels)
  ultimately have "0 \<le> np_std ls \<and> np_std ls \<le> 1"
    by (rule np_std_labels)
  then have "consistency ls \<ge> 1 / 2"
    by (simp add: consistency_def)
  then show False
    using neg by (simp add: ls_def)
qed

section \<open>The content of a site\<close>

lemma fetch_warc_record_none: "fetch_warc_record c r = None"
  by (simp add: fetch_warc_record_def read_warc_content_def split: option.split prod.split)

lemma collect_contents_empty: "collect_contents c rs = []"
  by (induction rs) (simp_all add: fetch_warc_record_none)

lemma unknown_domain_verdict:
  "check_known_domain_stance d = None \<Longrightarrow>
     analyze_domain_content c d =
       (if fetch_cc_records_for_domain c d = [] then no_data_verdict ''no_cc_data''
        else no_data_verdict ''no_content_extracted'')"
  by (simp add: analyze_domain_content_def collect_contents_empty)

text \<open>
  Claim C7, at a domain with a page in the crawl. \<open>example.org\<close> is in neither list,
  the index has one record of it, and the range request for the record is answered
  with status 206 and a page whose text, \<open>gender ideology\<close>, has one transphobic match
  and no friendly one: a ratio of 1, for which the claim gives transphobic (2) with
  confidence \<open>0.5 + min 0.4 (1 - 0.7) = 0.8\<close>. The code extracts no content from the
  response and returns gray area (1) with confidence 0.1 and source
  \<open>no_content_extracted\<close>.
\<close>

theorem C7_no_content_extracted:
  "check_known_domain_stance ''example.org'' = None \<and>
   fetch_cc_records_for_domain sample_crawl ''example.org'' =
     [\<lparr>rec_filename = ''org.warc.gz'', rec_offset = 0, rec_length = 64\<rparr>] \<and>
   range_request sample_crawl \<lparr>rec_filename = ''org.warc.gz'', rec_offset = 0, rec_length = 64\<rparr> =
     Some (206, ''<p>gender ideology</p>'') \<and>
   extract_text_from_html sample_crawl ''<p>gender ideology</p>'' = ''gender ideology'' \<and>
   site_transphobic_count sample_crawl [''gender ideology''] = 1 \<and>
   site_friendly_count sample_crawl [''gender ideology''] = 0 \<and>
   fetch_warc_record sample_crawl \<lparr>rec_filename = ''org.warc.gz'', rec_offset = 0, rec_length = 64\<rparr> = None \<and>
   analyze_domain_content sample_crawl ''example.org'' = no_data_verdict ''no_content_extracted'' \<and>
   classification (analyze_domain_content sample_crawl ''example.org'') = 1 \<and>
   confidence (analyze_domain_content sample_crawl ''example.org'') = 0.1"
  using unknown_domain_verdict [of "''example.org''" sample_crawl]
  by (simp add: sample_unknown sample_records sample_site_counts fetch_warc_record_none
      no_data_verdict_def)

section \<open>The cap on the analysis of unknown domains\<close>

lemma each_domain_append:
  "analyze_each_domain c st (xs @ ys) = analyze_each_domain c (analyze_each_domain c st xs) ys"
proof (induction xs arbitrary: st)
  case Nil
  then show ?case by (cases st) simp
next
  case (Cons x xs)
  obtain rs ca where st: "st = (rs, ca)" by (cases st)
  show ?case
    unfolding st by (simp add: Cons.IH Let_def split: option.split)
qed

lemma each_domain_step:
  "\<exists>rs' ca'. analyze_each_domain c (rs, ca) (d # ds) = analyze_each_domain c (rs', ca') ds \<and>
     (rs' = rs \<or> (\<exists>v. rs' = rs @ [(d, v)]))"
proof (cases "check_known_domain_stance d")
  case (Some k)
  show ?thesis
    by (rule exI [of _ "rs @ [(d, k)]"], rule exI [of _ ca]) (simp add: Some)
next
  case None
  show ?thesis
  proof (cases "length rs \<ge> 5")
    case True
    show ?thesis
      by (rule exI [of _ rs], rule exI [of _ ca]) (simp add: None True)
  next
    case False
    show ?thesis
    proof (cases "ca (cache_key d)")
      case (Some v)
      show ?thesis
        by (rule exI [of _ "rs @ [(d, v)]"], rule exI [of _ ca]) (simp add: None False Some)
    next
      case miss: None
      show ?thesis
        by (rule exI [of _ "rs @ [(d, analyze_domain_content c d)]"],
            rule exI [of _ "ca(cache_key d \<mapsto> analyze_domain_content c d)"])
          (simp add: None False miss Let_def)
    qed
  qed
qed

lemma each_domain_names:
  "fst ` set (fst (analyze_each_domain c (rs, ca) ds)) \<subseteq> fst ` set rs \<union> set ds"
proof (induction ds arbitrary: rs ca)
  case Nil
  then show ?case by simp
next
  case (Cons d ds)
  obtain rs' ca' where step: "analyze_each_domain c (rs, ca) (d # ds) = analyze_each_domain c (rs', ca') ds"
    and grown: "rs' = rs \<or> (\<exists>v. rs' = rs @ [(d, v)])"
    using each_domain_step by blast
  have "fst ` set (fst (analyze_each_domain c (rs', ca') ds)) \<subseteq> fst ` set rs' \<union> set ds"
    by (rule Cons.IH)
  moreover have "fst ` set rs' \<subseteq> fst ` set rs \<union> {d}"
    using grown by auto
  ultimately show ?case
    unfolding step by auto
qed

lemma each_domain_keeps:
  "set rs \<subseteq> set (fst (analyze_each_domain c (rs, ca) ds))"
proof (induction ds arbitrary: rs ca)
  case Nil
  then show ?case by simp
next
  case (Cons d ds)
  obtain rs' ca' where step: "analyze_each_domain c (rs, ca) (d # ds) = analyze_each_domain c (rs', ca') ds"
    and grown: "rs' = rs \<or> (\<exists>v. rs' = rs @ [(d, v)])"
    using each_domain_step by blast
  have "set rs' \<subseteq> set (fst (analyze_each_domain c (rs', ca') ds))"
    by (rule Cons.IH)
  moreover have "set rs \<subseteq> set rs'"
    using grown by auto
  ultimately show ?case
    unfolding step by auto
qed

lemma aggregate_names:
  "fst ` set (domain_results (aggregate_results c rs)) = fst ` set rs"
  by (cases "rs = []")
    (force simp: aggregate_results_def domain_results_def link_error_def Let_def)+

lemma each_domain_at:
  fixes c :: cc_analyzer and ca :: link_cache
  assumes "distinct (before @ d # after)"
  defines "accumulated \<equiv> length (fst (analyze_each_domain c ([], ca) before))"
  defines "final \<equiv> fst (analyze_each_domain c ([], ca) (before @ d # after))"
  shows "check_known_domain_stance d \<noteq> None \<Longrightarrow> d \<in> fst ` set final"
    and "check_known_domain_stance d = None \<Longrightarrow> (d \<in> fst ` set final) = (accumulated < 5)"
    and "check_known_domain_stance d \<noteq> None \<Longrightarrow>
           length (fst (analyze_each_domain c ([], ca) (before @ [d]))) = accumulated + 1"
proof -
  obtain rs1 c1 where st1: "analyze_each_domain c ([], ca) before = (rs1, c1)"
    by (cases "analyze_each_domain c ([], ca) before")
  have acc: "accumulated = length rs1"
    by (simp add: accumulated_def st1)
  have fresh: "d \<notin> fst ` set rs1"
    using each_domain_names [of c "[]" ca before] assms(1) by (auto simp: st1)
  have final_eq: "final = fst (analyze_each_domain c (analyze_each_domain c (rs1, c1) [d]) after)"
    unfolding final_def using each_domain_append [of c "([], ca)" before "d # after"]
      each_domain_append [of c "(rs1, c1)" "[d]" after]
    by (simp add: st1)
  have not_later: "d \<notin> set after"
    using assms(1) by simp
  show "d \<in> fst ` set final" if "check_known_domain_stance d \<noteq> None"
  proof -
    from that obtain k where k: "check_known_domain_stance d = Some k" by blast
    have "(d, k) \<in> set (fst (analyze_each_domain c (rs1 @ [(d, k)], c1) after))"
      using each_domain_keeps [of "rs1 @ [(d, k)]" c c1 after] by auto
    then show ?thesis
      unfolding final_eq by (force simp: k)
  qed
  show "(d \<in> fst ` set final) = (accumulated < 5)" if unknown: "check_known_domain_stance d = None"
  proof (cases "length rs1 \<ge> 5")
    case True
    have "fst ` set final \<subseteq> fst ` set rs1 \<union> set after"
      unfolding final_eq using True unknown each_domain_names [of c rs1 c1 after] by simp
    then show ?thesis
      using fresh not_later True acc by auto
  next
    case False
    obtain v c2 where step: "analyze_each_domain c (rs1, c1) [d] = (rs1 @ [(d, v)], c2)"
      using False unknown by (cases "c1 (cache_key d)") (simp_all add: Let_def)
    have "(d, v) \<in> set (fst (analyze_each_domain c (rs1 @ [(d, v)], c2) after))"
      using each_domain_keeps [of "rs1 @ [(d, v)]" c c2 after] by auto
    then have "d \<in> fst ` set final"
      unfolding final_eq step by force
    then show ?thesis
      using False acc by simp
  qed
  show "length (fst (analyze_each_domain c ([], ca) (before @ [d]))) = accumulated + 1"
    if "check_known_domain_stance d \<noteq> None"
  proof -
    from that obtain k where k: "check_known_domain_stance d = Some k" by blast
    show ?thesis
      using each_domain_append [of c "([], ca)" before "[d]"] by (simp add: st1 k acc)
  qed
qed

text \<open>
  Claim C4, as the code has it. Let the domains of a list of links be iterated in the
  order \<open>before @ d # after\<close>, each once. If \<open>d\<close> is in a known list, it is in the
  aggregate, however many results stand before it, and it adds one to the number of
  results. If \<open>d\<close> is in neither list, it is in the aggregate exactly when fewer than
  5 results have been accumulated before it, hits of the known lists counted with
  the results of unknown domains: the cap is on the length of the result list, so
  known-list hits met earlier do count against it.
\<close>

theorem C4_cap_on_all_results:
  "links \<noteq> [] \<and> link_domains c links = before @ d # after \<and> distinct (before @ d # after) \<longrightarrow>
     (let included = fst ` set (domain_results (fst (analyze_links c cache links)));
          accumulated = length (fst (analyze_each_domain c ([], cache) before))
      in (check_known_domain_stance d \<noteq> None \<longrightarrow>
            d \<in> included \<and>
            length (fst (analyze_each_domain c ([], cache) (before @ [d]))) = accumulated + 1) \<and>
         (check_known_domain_stance d = None \<longrightarrow> (d \<in> included) = (accumulated < 5)))"
proof
  assume pre: "links \<noteq> [] \<and> link_domains c links = before @ d # after \<and> distinct (before @ d # after)"
  then have dist: "distinct (before @ d # after)" by simp
  have "fst (analyze_links c cache links) =
      aggregate_results c (fst (analyze_each_domain c ([], cache) (before @ d # after)))"
    using pre by (simp add: analyze_links_def Let_def split: prod.split)
  then have included: "fst ` set (domain_results (fst (analyze_links c cache links))) =
      fst ` set (fst (analyze_each_domain c ([], cache) (before @ d # after)))"
    by (simp add: aggregate_names)
  show "let included = fst ` set (domain_results (fst (analyze_links c cache links)));
          accumulated = length (fst (analyze_each_domain c ([], cache) before))
      in (check_known_domain_stance d \<noteq> None \<longrightarrow>
            d \<in> included \<and>
            length (fst (analyze_each_domain c ([], cache) (before @ [d]))) = accumulated + 1) \<and>
         (check_known_domain_stance d = None \<longrightarrow> (d \<in> included) = (accumulated < 5))"
    unfolding Let_def included
    using each_domain_at [OF dist, of c cache] by blast
qed

text \<open>
  Five known domains followed by \<open>example.org\<close>: the fifth known domain is included,
  \<open>example.org\<close> is not.
\<close>

theorem C4_cap_on_all_results_witness:
  "sample_links \<noteq> [] \<and> distinct (link_domains sample_crawl sample_links) \<and>
   link_domains sample_crawl sample_links =
     [''kiwifarms.net'', ''ovarit.com'', ''heritage.org'', ''breitbart.com''] @ ''glaad.org'' # [''example.org''] \<and>
   check_known_domain_stance ''glaad.org'' \<noteq> None \<and>
   check_known_domain_stance ''example.org'' = None \<and>
   length (fst (analyze_each_domain sample_crawl ([], Map.empty)
     [''kiwifarms.net'', ''ovarit.com'', ''heritage.org'', ''breitbart.com'', ''glaad.org''])) = 5 \<and>
   ''glaad.org'' \<in> fst ` set (domain_results (fst (analyze_links sample_crawl Map.empty sample_links))) \<and>
   ''example.org'' \<notin> fst ` set (domain_results (fst (analyze_links sample_crawl Map.empty sample_links)))"
  using C4_cap_on_all_results [of sample_links sample_crawl
      "[''kiwifarms.net'', ''ovarit.com'', ''heritage.org'', ''breitbart.com'']" "''glaad.org''"
      "[''example.org'']" Map.empty]
    C4_cap_on_all_results [of sample_links sample_crawl
      "[''kiwifarms.net'', ''ovarit.com'', ''heritage.org'', ''breitbart.com'', ''glaad.org'']"
      "''example.org''" "[]" Map.empty]
  by (simp add: sample_link_domains sample_aggregate Let_def sample_known sample_unknown)
    (simp add: sample_links_def)

text \<open>
  With the five known domains first, \<open>example.org\<close>, which is in neither list and has
  pages in the crawl, is skipped, although no unknown domain was analyzed before it.
\<close>

theorem C4_counterexample:
  "check_known_domain_stance ''example.org'' = None \<and>
   link_domains sample_crawl sample_links =
     [''kiwifarms.net'', ''ovarit.com'', ''heritage.org'', ''breitbart.com'', ''glaad.org'', ''example.org''] \<and>
   domains_analyzed (fst (analyze_links sample_crawl Map.empty sample_links)) = 5 \<and>
   domain_results (fst (analyze_links sample_crawl Map.empty sample_links)) =
     [(''kiwifarms.net'', 2, 0.85), (''ovarit.com'', 2, 0.85), (''heritage.org'', 2, 0.85),
      (''breitbart.com'', 2, 0.85), (''glaad.org'', 0, 0.85)]"
  by (simp add: sample_unknown sample_link_domains sample_aggregate) (simp add: sample_links_def)

section \<open>Normalizing a domain twice\<close>

lemma of_char_lower_char:
  "(of_char (lower_char c) :: nat) =
     (if (65 \<le> (of_char c :: nat) \<and> (of_char c :: nat) \<le> 90) \<or>
         (192 \<le> (of_char c :: nat) \<and> (of_char c :: nat) \<le> 222 \<and> (of_char c :: nat) \<noteq> 215)
      then of_char c + 32 else of_char c)"
  by (auto simp: lower_char_def Let_def)

lemma char_eq_code: "(c = d) = ((of_char c :: nat) = of_char d)"
  by auto

lemma lower_char_idem: "lower_char (lower_char c) = lower_char c"
  unfolding char_eq_code [of "lower_char (lower_char c)"]
  by (simp add: of_char_lower_char)

lemma lower_char_keeps:
  "netloc_delimiter (lower_char c) = netloc_delimiter c"
  "unsafe_url_char (lower_char c) = unsafe_url_char c"
  "(lower_char c = CHR ''['') = (c = CHR ''['')"
  "(lower_char c = CHR '']'') = (c = CHR '']'')"
  unfolding netloc_delimiter_def unsafe_url_char_def char_eq_code
  by (auto simp: of_char_lower_char)


lemma netloc_chars:
  assumes "urlparse_netloc bh u = Some n"
  shows "(\<forall>c \<in> set n. \<not> unsafe_url_char c \<and> \<not> netloc_delimiter c) \<and> set n \<subseteq> set u"
proof -
  define url2 where "url2 = filter (\<lambda>c. \<not> unsafe_url_char c) (dropWhile (\<lambda>c. (of_char c :: nat) \<le> 32) u)"
  define i where "i = length (takeWhile (\<lambda>c. c \<noteq> CHR '':'') url2)"
  define url3 where "url3 = (if i < length url2 \<and> i > 0 \<and> ascii_alpha (hd url2) \<and> list_all scheme_char (take i url2)
                 then drop (i + 1) url2 else url2)"
  have safe2: "\<forall>c \<in> set url2. \<not> unsafe_url_char c" and sub2: "set url2 \<subseteq> set u"
    by (auto simp: url2_def dest: set_dropWhileD)
  have sub3: "set url3 \<subseteq> set url2"
    by (auto simp: url3_def dest: in_set_dropD)
  show ?thesis
  proof (cases "take 2 url3 = ''//''")
    case False
    then have "n = []"
      using assms unfolding urlparse_netloc_def Let_def url2_def [symmetric] i_def [symmetric] url3_def [symmetric]
      by simp
    then show ?thesis by simp
  next
    case True
    then have n: "n = takeWhile (\<lambda>c. \<not> netloc_delimiter c) (drop 2 url3)"
      using assms unfolding urlparse_netloc_def Let_def url2_def [symmetric] i_def [symmetric] url3_def [symmetric]
      by (simp split: if_splits)
    have "set n \<subseteq> set url3"
      unfolding n by (auto dest: set_takeWhileD in_set_dropD)
    moreover have "\<forall>c \<in> set n. \<not> netloc_delimiter c"
      unfolding n by (auto dest: set_takeWhileD)
    ultimately show ?thesis
      using sub3 sub2 safe2 by blast
  qed
qed

lemma netloc_error_brackets:
  assumes "urlparse_netloc bh u = None"
  shows "CHR ''['' \<in> set u \<or> CHR '']'' \<in> set u"
proof -
  define url2 where "url2 = filter (\<lambda>c. \<not> unsafe_url_char c) (dropWhile (\<lambda>c. (of_char c :: nat) \<le> 32) u)"
  define i where "i = length (takeWhile (\<lambda>c. c \<noteq> CHR '':'') url2)"
  define url3 where "url3 = (if i < length url2 \<and> i > 0 \<and> ascii_alpha (hd url2) \<and> list_all scheme_char (take i url2)
                 then drop (i + 1) url2 else url2)"
  define n where "n = takeWhile (\<lambda>c. \<not> netloc_delimiter c) (drop 2 url3)"
  have sub2: "set url2 \<subseteq> set u"
    by (auto simp: url2_def dest: set_dropWhileD)
  have sub3: "set url3 \<subseteq> set url2"
    by (auto simp: url3_def dest: in_set_dropD)
  have subn: "set n \<subseteq> set url3"
    unfolding n_def by (auto dest: set_takeWhileD in_set_dropD)
  have "CHR ''['' \<in> set n \<or> CHR '']'' \<in> set n"
    using assms unfolding urlparse_netloc_def Let_def url2_def [symmetric] i_def [symmetric]
      url3_def [symmetric] n_def [symmetric]
    by (auto split: if_splits)
  then show ?thesis
    using subn sub3 sub2 by blast
qed

lemma netloc_of_https:
  assumes "\<forall>c \<in> set d. \<not> unsafe_url_char c \<and> \<not> netloc_delimiter c"
    and "CHR ''['' \<notin> set d" and "CHR '']'' \<notin> set d"
  shows "urlparse_netloc bh (''https://'' @ d) = Some d"
proof -
  have filter_d: "filter (\<lambda>c. \<not> unsafe_url_char c) d = d"
    using assms(1) by (simp add: filter_id_conv)
  have take_d: "takeWhile (\<lambda>c. \<not> netloc_delimiter c) d = d"
    using assms(1) by (simp add: takeWhile_eq_all_conv)
  have strip_none: "dropWhile (\<lambda>c. (of_char c :: nat) \<le> 32) (''https://'' @ d) = ''https://'' @ d"
    by simp
  have "filter (\<lambda>c. \<not> unsafe_url_char c) ''https://'' = ''https://''"
    by (simp add: unsafe_url_char_def)
  then have filter_all: "filter (\<lambda>c. \<not> unsafe_url_char c) (''https://'' @ d) = ''https://'' @ d"
    using filter_d by (simp only: filter_append)
  show ?thesis
    unfolding urlparse_netloc_def strip_none filter_all Let_def
    using assms(2,3) by (simp add: ascii_alpha_def scheme_char_def take_d)
qed

lemma lower_drop: "lower (drop k (lower s)) = drop k (lower s)"
  by (simp add: lower_def drop_map lower_char_idem)

lemma bracket_lower_char:
  "(CHR ''['' = lower_char c) = (CHR ''['' = c)"
  "(CHR '']'' = lower_char c) = (CHR '']'' = c)"
  unfolding char_eq_code
  by (auto simp: of_char_lower_char)

lemma lower_brackets:
  "(CHR ''['' \<in> set (lower s)) = (CHR ''['' \<in> set s)"
  "(CHR '']'' \<in> set (lower s)) = (CHR '']'' \<in> set s)"
  by (induction s) (simp_all add: lower_def bracket_lower_char)

lemma get_domain_of_host:
  assumes "\<forall>x \<in> set d. \<not> unsafe_url_char x \<and> \<not> netloc_delimiter x"
    and "CHR ''['' \<notin> set d" and "CHR '']'' \<notin> set d" and "\<not> startswith d ''http''"
  shows "get_domain_from_url c d =
    (if startswith (lower d) ''www.'' then drop 4 (lower d) else lower d)"
  using netloc_of_https [OF assms(1-3), of "bracketed_host_rejected c"] assms(4)
  by (simp add: get_domain_from_url_def Let_def)

lemma lower_example: "lower ''WWW.Example.com'' = ''www.example.com''"
  "lower ''example.com'' = ''example.com''"
  by code_simp+


lemma example_domains:
  "get_domain_from_url c ''WWW.Example.com'' = ''example.com''"
  "get_domain_from_url c ''example.com'' = ''example.com''"
proof -
  show "get_domain_from_url c ''WWW.Example.com'' = ''example.com''"
    using get_domain_of_host [of "''WWW.Example.com''" c]
    by (simp add: lower_example startswith_def unsafe_url_char_def netloc_delimiter_def)
  show "get_domain_from_url c ''example.com'' = ''example.com''"
    using get_domain_of_host [of "''example.com''" c]
    by (simp add: lower_example startswith_def unsafe_url_char_def netloc_delimiter_def)
qed

lemma normalize_again:
  assumes "d = get_domain_from_url c url"
    and hyp: "\<not> startswith d ''www.''" "\<not> startswith d ''http''"
      "CHR ''['' \<notin> set d" "CHR '']'' \<notin> set d"
  shows "get_domain_from_url c d = d"
proof -
  define bh where "bh = bracketed_host_rejected c"
  define target where "target = (if startswith url ''http'' then url else ''https://'' @ url)"
  show ?thesis
  proof (cases "urlparse_netloc bh target")
    case None
    then have "CHR ''['' \<in> set target \<or> CHR '']'' \<in> set target"
      by (rule netloc_error_brackets)
    then have "CHR ''['' \<in> set url \<or> CHR '']'' \<in> set url"
      by (auto simp: target_def split: if_splits)
    then have "CHR ''['' \<in> set (lower url) \<or> CHR '']'' \<in> set (lower url)"
      by (simp add: lower_brackets)
    moreover have "d = lower url"
      using None by (simp add: assms(1) get_domain_from_url_def bh_def target_def)
    ultimately show ?thesis
      using hyp(3,4) by simp
  next
    case (Some n)
    have "d = (if startswith (lower n) ''www.'' then drop 4 (lower n) else lower n)"
      using Some by (simp add: assms(1) get_domain_from_url_def bh_def target_def Let_def)
    then have "d = drop 4 (lower n) \<or> d = drop 0 (lower n)"
      by (simp split: if_splits)
    then obtain k where d_eq: "d = drop k (lower n)"
      by blast
    have clean_n: "\<forall>x \<in> set n. \<not> unsafe_url_char x \<and> \<not> netloc_delimiter x"
      using netloc_chars [OF Some] by simp
    have "set d \<subseteq> lower_char ` set n"
      unfolding d_eq lower_def by (auto dest: in_set_dropD)
    then have clean_d: "\<forall>x \<in> set d. \<not> unsafe_url_char x \<and> \<not> netloc_delimiter x"
      using clean_n lower_char_keeps(1,2) by blast
    have "lower d = d"
      unfolding d_eq by (rule lower_drop)
    then show ?thesis
      using get_domain_of_host [OF clean_d hyp(3,4) hyp(2), of c] hyp(1) by simp
  qed
qed

text \<open>
  Claim C10, as the code has it. \<open>get_domain_from_url\<close> lower-cases the network
  location and strips one leading \<open>www.\<close>. For every analyzer and every input, if the
  normalized domain begins with neither \<open>www.\<close> nor \<open>http\<close> and holds no square
  bracket, then normalizing it again gives it back. \<open>WWW.Example.com\<close> and
  \<open>example.com\<close> both normalize to \<open>example.com\<close> and so meet the same entry of the
  known lists.
\<close>

theorem C10_normalize_again:
  "(let d = get_domain_from_url c url in
      \<not> startswith d ''www.'' \<and> \<not> startswith d ''http'' \<and>
      CHR ''['' \<notin> set d \<and> CHR '']'' \<notin> set d \<longrightarrow>
      get_domain_from_url c d = d) \<and>
   get_domain_from_url c ''WWW.Example.com'' = ''example.com'' \<and>
   get_domain_from_url c ''example.com'' = ''example.com'' \<and>
   check_known_domain_stance (get_domain_from_url c ''WWW.Example.com'') =
     check_known_domain_stance (get_domain_from_url c ''example.com'')"
  unfolding Let_def
  using normalize_again [of "get_domain_from_url c url" c url] example_domains [of c]
  by simp

theorem C10_normalize_again_witness:
  "get_domain_from_url sample_crawl ''https://WWW.Example.com/page'' = ''example.com'' \<and>
   \<not> startswith ''example.com'' ''www.'' \<and> \<not> startswith ''example.com'' ''http'' \<and>
   CHR ''['' \<notin> set ''example.com'' \<and> CHR '']'' \<notin> set ''example.com'' \<and>
   get_domain_from_url sample_crawl ''example.com'' = ''example.com'' \<and>
   get_domain_from_url sample_crawl ''WWW.Example.com'' = ''example.com''"
proof -
  have first: "get_domain_from_url sample_crawl ''https://WWW.Example.com/page'' = ''example.com''"
    by code_simp
  show ?thesis
    using C10_normalize_again [of sample_crawl "''https://WWW.Example.com/page''"]
    by (simp add: first Let_def startswith_def)
qed

text \<open>
  Only one \<open>www.\<close> is stripped: \<open>www.www.example.com\<close> normalizes to
  \<open>www.example.com\<close>, and this normalized domain normalizes to \<open>example.com\<close>.
\<close>

theorem C10_counterexample:
  "get_domain_from_url sample_crawl ''www.www.example.com'' = ''www.example.com'' \<and>
   get_domain_from_url sample_crawl (get_domain_from_url sample_crawl ''www.www.example.com'') =
     ''example.com''"
  by code_simp

section \<open>Every verdict is well formed\<close>

lemma analyze_text_well_formed: "well_formed (fst (analyze_text a s))"
proof (cases "s = [] \<or> length (strip s) < 5")
  case True
  then show ?thesis
    by (simp add: analyze_text_def insufficient_text_def well_formed_def in_range_def)
next
  case False
  have patterns: "well_formed (analyze_with_patterns a (preprocess_text a s))"
    using analyze_with_patterns_range [of a "preprocess_text a s"]
    by (simp add: well_formed_def in_range_def no_data_def)
  show ?thesis
  proof (cases "ollama_available a")
    case avail: True
    show ?thesis
    proof (cases "analyze_with_ollama a (take 8000 (preprocess_text a s))")
      case None
      then show ?thesis
        using False avail patterns by (simp add: analyze_text_def Let_def)
    next
      case (Some v)
      have "well_formed v"
        using analyze_with_ollama_range [OF Some]
        by (simp add: well_formed_def in_range_def no_data_def)
      then show ?thesis
        using False avail Some by (simp add: analyze_text_def Let_def)
    qed
  next
    case unavail: False
    then show ?thesis
      using False patterns by (simp add: analyze_text_def Let_def)
  qed
qed

lemma final_classification_range: "final_classification w \<in> {0, 1, 2}"
  by (simp add: final_classification_def)

lemma analyze_profile_well_formed: "well_formed (analyze_profile a posts)"
proof (cases "posts = []")
  case True
  then show ?thesis
    by (simp add: analyze_profile_def no_posts_def well_formed_def in_range_def)
next
  case False
  define ls where "ls = map classification (map (\<lambda>post. fst (analyze_text a post)) (take 20 posts))"
  have "ls \<noteq> []" using False by (simp add: ls_def)
  moreover have "\<forall>x \<in> set ls. x \<in> {0, 1, 2}"
    unfolding ls_def by (rule profile_labels)
  ultimately have std: "0 \<le> np_std ls \<and> np_std ls \<le> 1"
    by (rule np_std_labels)
  have sample: "0 \<le> sample_confidence posts"
    by (simp add: sample_confidence_def)
  have conf: "confidence (analyze_profile a posts) =
      min 0.95 ((consistency ls + sample_confidence posts) / 2)"
    using False by (simp add: analyze_profile_def Let_def ls_def)
  have "0 \<le> confidence (analyze_profile a posts) \<and> confidence (analyze_profile a posts) \<le> 1"
    unfolding conf using std sample by (simp add: consistency_def min_def)
  moreover have "classification (analyze_profile a posts) \<in> {0, 1, 2}"
    using False final_classification_range by (simp add: analyze_profile_def Let_def)
  moreover have "provenance (analyze_profile a posts) = Method ''profile_analysis''"
    using False by (simp add: analyze_profile_def Let_def)
  ultimately show ?thesis
    by (simp add: well_formed_def in_range_def no_data_def)
qed

lemma known_stance_well_formed:
  "check_known_domain_stance d = Some k \<Longrightarrow> well_formed k"
  by (auto simp: check_known_domain_stance_def well_formed_def in_range_def no_data_def
      split: if_splits)

lemma no_data_verdict_well_formed: "well_formed (no_data_verdict reason)"
  by (simp add: no_data_verdict_def well_formed_def in_range_def)

lemma analyze_domain_content_well_formed: "well_formed (analyze_domain_content c d)"
proof (cases "check_known_domain_stance d")
  case (Some k)
  then show ?thesis
    using known_stance_well_formed [OF Some] by (simp add: analyze_domain_content_def)
next
  case None
  then show ?thesis
    using unknown_domain_verdict [OF None, of c] no_data_verdict_well_formed by simp
qed

lemma analyze_single_url_well_formed:
  assumes "cache_ok cache"
  shows "well_formed (fst (analyze_single_url c cache url)) \<and> cache_ok (snd (analyze_single_url c cache url))"
proof (cases "cache (cache_key (get_domain_from_url c url))")
  case None
  then show ?thesis
    using assms analyze_domain_content_well_formed [of c "get_domain_from_url c url"]
    by (simp add: analyze_single_url_def Let_def cache_ok_def)
next
  case (Some v)
  then have "well_formed v"
    using assms by (auto simp: cache_ok_def)
  then show ?thesis
    using assms Some by (simp add: analyze_single_url_def Let_def)
qed

lemma each_domain_well_formed:
  assumes "results_ok rs" "cache_ok ca"
  shows "results_ok (fst (analyze_each_domain c (rs, ca) ds)) \<and>
         cache_ok (snd (analyze_each_domain c (rs, ca) ds))"
  using assms
proof (induction ds arbitrary: rs ca)
  case Nil
  then show ?case by simp
next
  case (Cons d ds)
  show ?case
  proof (cases "check_known_domain_stance d")
    case (Some k)
    have "results_ok (rs @ [(d, k)])"
      using Cons.prems(1) known_stance_well_formed [OF Some] by (simp add: results_ok_def)
    then show ?thesis
      using Cons.IH [of "rs @ [(d, k)]" ca] Cons.prems(2) by (simp add: Some)
  next
    case None
    show ?thesis
    proof (cases "length rs \<ge> 5")
      case True
      then show ?thesis
        using Cons.IH [of rs ca] Cons.prems by (simp add: None)
    next
      case False
      show ?thesis
      proof (cases "ca (cache_key d)")
        case hit: (Some v)
        have "well_formed v"
          using Cons.prems(2) hit by (auto simp: cache_ok_def)
        then have "results_ok (rs @ [(d, v)])"
          using Cons.prems(1) by (simp add: results_ok_def)
        then show ?thesis
          using Cons.IH [of "rs @ [(d, v)]" ca] Cons.prems(2) by (simp add: None False hit)
      next
        case miss: None
        define v where "v = analyze_domain_content c d"
        have wf: "well_formed v"
          unfolding v_def by (rule analyze_domain_content_well_formed)
        have "results_ok (rs @ [(d, v)])"
          using Cons.prems(1) wf by (simp add: results_ok_def)
        moreover have "cache_ok (ca(cache_key d \<mapsto> v))"
          using Cons.prems(2) wf by (simp add: cache_ok_def)
        ultimately have "results_ok (fst (analyze_each_domain c (rs @ [(d, v)], ca(cache_key d \<mapsto> v)) ds)) \<and>
            cache_ok (snd (analyze_each_domain c (rs @ [(d, v)], ca(cache_key d \<mapsto> v)) ds))"
          by (rule Cons.IH)
        then show ?thesis
          by (simp add: None False miss Let_def v_def)
      qed
    qed
  qed
qed

lemma mean_in_unit:
  fixes xs :: "real list"
  assumes "xs \<noteq> []" "\<forall>x \<in> set xs. 0 \<le> x \<and> x \<le> 1"
  shows "0 \<le> sum_list xs / real (length xs) \<and> sum_list xs / real (length xs) \<le> 1"
proof -
  have "0 \<le> sum_list xs"
    using assms(2) by (simp add: sum_list_nonneg)
  moreover have "sum_list xs \<le> real (length xs)"
    using assms(2) by (induction xs) auto
  moreover have "0 < real (length xs)"
    using assms(1) by simp
  ultimately show ?thesis
    by (simp add: divide_le_eq)
qed

lemma link_error_well_formed: "well_formed (link_error reason)"
  by (simp add: link_error_def well_formed_def in_range_def)

lemma aggregate_results_well_formed:
  assumes "results_ok rs"
  shows "well_formed (aggregate_results c rs)"
proof (cases "rs = []")
  case True
  then show ?thesis
    using link_error_well_formed by (simp add: aggregate_results_def)
next
  case False
  define confs where "confs = map (\<lambda>(domain, r). confidence r) rs"
  have "confs \<noteq> []" using False by (simp add: confs_def)
  moreover have "\<forall>x \<in> set confs. 0 \<le> x \<and> x \<le> 1"
    using assms by (auto simp: confs_def results_ok_def well_formed_def in_range_def)
  ultimately have mean: "0 \<le> sum_list confs / real (length confs) \<and> sum_list confs / real (length confs) \<le> 1"
    by (rule mean_in_unit)
  have "confidence (aggregate_results c rs) = sum_list confs / real (length confs)"
    "provenance (aggregate_results c rs) = Untagged"
    "classification (aggregate_results c rs) \<in> {0, 1, 2}"
    using False final_classification_range
    by (simp_all add: aggregate_results_def Let_def confs_def)
  then show ?thesis
    using mean by (simp add: well_formed_def in_range_def no_data_def)
qed

lemma analyze_links_well_formed:
  assumes "cache_ok cache"
  shows "well_formed (fst (analyze_links c cache links)) \<and> cache_ok (snd (analyze_links c cache links))"
proof (cases "links = [] \<or> link_domains c links = []")
  case True
  then show ?thesis
    using assms link_error_well_formed by (auto simp: analyze_links_def Let_def)
next
  case False
  have "results_ok []" by (simp add: results_ok_def)
  then have loop: "results_ok (fst (analyze_each_domain c ([], cache) (link_domains c links))) \<and>
      cache_ok (snd (analyze_each_domain c ([], cache) (link_domains c links)))"
    using assms by (rule each_domain_well_formed)
  then show ?thesis
    using False aggregate_results_well_formed
    by (auto simp: analyze_links_def Let_def split: prod.split)
qed

lemma reconcile_well_formed:
  assumes "well_formed p" "well_formed q"
  shows "in_range (reconcile_profile p q)" "in_range (reconcile_url p q)"
    "\<not> (confidence p < 0.6 \<and> confidence q > 0.7) \<Longrightarrow> well_formed (reconcile_profile p q)"
    "\<not> (confidence p < 0.6 \<and> confidence q > 0.7) \<Longrightarrow> well_formed (reconcile_url p q)"
  using assms
  by (auto simp: reconcile_profile_def reconcile_url_def well_formed_def in_range_def)

text \<open>
  Claim C6, as the code has it. The verdicts of \<open>analyze_text\<close>, of
  \<open>analyze_profile\<close> and of \<open>analyze_domain_content\<close> are well formed: the
  classification is 0, 1 or 2, the confidence lies between 0 and 1, and a verdict
  tagged \<open>insufficient_text\<close>, \<open>no_posts\<close>, \<open>no_cc_data\<close>, \<open>no_content_extracted\<close> or
  \<open>no_valid_domains\<close> has a confidence of at most 0.1. On a well-formed cache,
  \<open>analyze_single_url\<close> and \<open>analyze_links\<close> return well-formed verdicts and leave a
  well-formed cache. Reconciling two well-formed verdicts gives a classification
  in 0, 1, 2 and a confidence between 0 and 1; the result is well formed when the
  primary is not overridden. An overridden primary keeps its tag and takes the mean
  of the two confidences, so the bound 0.1 is not promised for it.
\<close>

theorem C6_verdicts_well_formed:
  "well_formed (fst (analyze_text a s)) \<and>
   well_formed (analyze_profile a posts) \<and>
   well_formed (analyze_domain_content c d) \<and>
   (cache_ok cache \<longrightarrow>
      well_formed (fst (analyze_single_url c cache url)) \<and>
      cache_ok (snd (analyze_single_url c cache url)) \<and>
      well_formed (fst (analyze_links c cache links)) \<and>
      cache_ok (snd (analyze_links c cache links))) \<and>
   (well_formed p \<and> well_formed q \<longrightarrow>
      in_range (reconcile_profile p q) \<and> in_range (reconcile_url p q) \<and>
      (\<not> (confidence p < 0.6 \<and> confidence q > 0.7) \<longrightarrow>
         well_formed (reconcile_profile p q) \<and> well_formed (reconcile_url p q)))"
  using analyze_text_well_formed [of a s] analyze_profile_well_formed [of a posts]
    analyze_domain_content_well_formed [of c d]
    analyze_single_url_well_formed [of cache c url] analyze_links_well_formed [of cache c links]
    reconcile_well_formed [of p q]
  by blast

theorem C6_verdicts_well_formed_witness:
  "cache_ok Map.empty \<and> well_formed unsure_primary \<and> well_formed transphobic_secondary \<and>
   well_formed friendly_primary \<and> well_formed confident_secondary \<and>
   well_formed (fst (analyze_text pattern_only_analyzer ''ok'')) \<and>
   well_formed (analyze_profile pattern_only_analyzer [''gender ideology'', ''trans rights'']) \<and>
   well_formed (analyze_domain_content sample_crawl ''example.com'') \<and>
   well_formed (fst (analyze_single_url sample_crawl Map.empty ''https://breitbart.com/'')) \<and>
   well_formed (fst (analyze_links sample_crawl Map.empty sample_links)) \<and>
   in_range (reconcile_profile unsure_primary transphobic_secondary) \<and>
   well_formed (reconcile_url friendly_primary confident_secondary)"
proof -
  have given: "cache_ok Map.empty" "well_formed unsure_primary" "well_formed transphobic_secondary"
    "well_formed friendly_primary" "well_formed confident_secondary"
    by (simp_all add: cache_ok_def well_formed_def in_range_def no_data_def unsure_primary_def
        transphobic_secondary_def friendly_primary_def confident_secondary_def)
  have unchanged: "\<not> (confidence friendly_primary < 0.6 \<and> confidence confident_secondary > 0.7)"
    by (simp add: friendly_primary_def)
  show ?thesis
    using given unchanged
      C6_verdicts_well_formed [of pattern_only_analyzer "''ok''"
        "[''gender ideology'', ''trans rights'']" sample_crawl "''example.com''" Map.empty
        "''https://breitbart.com/''" sample_links unsure_primary transphobic_secondary]
      C6_verdicts_well_formed [of pattern_only_analyzer "''ok''"
        "[''gender ideology'', ''trans rights'']" sample_crawl "''example.com''" Map.empty
        "''https://breitbart.com/''" sample_links friendly_primary confident_secondary]
    by blast
qed

text \<open>
  The page of a known transphobic domain yields the text \<open>ok\<close>: the verdict of the
  text is \<open>insufficient_text\<close> with confidence 0.1, the handler overrides it by the
  verdict of the domain, and the result is still tagged \<open>insufficient_text\<close>, with
  confidence 0.475.
\<close>

theorem C6_counterexample:
  "fst (analyze_text pattern_only_analyzer ''ok'') = insufficient_text \<and>
   fst (analyze_single_url sample_crawl Map.empty ''https://breitbart.com/'') = known_transphobic \<and>
   provenance (reconcile_url (fst (analyze_text pattern_only_analyzer ''ok''))
      (fst (analyze_single_url sample_crawl Map.empty ''https://breitbart.com/''))) = Error ''insufficient_text'' \<and>
   no_data (reconcile_url (fst (analyze_text pattern_only_analyzer ''ok''))
      (fst (analyze_single_url sample_crawl Map.empty ''https://breitbart.com/''))) \<and>
   classification (reconcile_url (fst (analyze_text pattern_only_analyzer ''ok''))
      (fst (analyze_single_url sample_crawl Map.empty ''https://breitbart.com/''))) = 2 \<and>
   confidence (reconcile_url (fst (analyze_text pattern_only_analyzer ''ok''))
      (fst (analyze_single_url sample_crawl Map.empty ''https://breitbart.com/''))) = 0.475"
  by (simp add: short_sample breitbart_verdict reconcile_url_def insufficient_text_def
      known_transphobic_def no_data_def)

end
